theory Spec2Isabelle
  imports Main "HOL-Library.Word" "HOL-Library.Sublist" "HOL-Library.AList"
begin

section \<open>Go values, errors and results\<close>

text \<open>
  A value of Go's \<open>any\<close> as it appears in the outputs of a stack: a string, an array
  (\<open>[]any\<close>), a number, a boolean, an object or \<open>nil\<close>.
\<close>

datatype gvalue =
    VString string
  | VArray "gvalue list"
  | VNumber int
  | VBool bool
  | VObject "(string \<times> gvalue) list"
  | VNil

text \<open>The type assertions \<open>v.(string)\<close> and \<open>v.([]any)\<close> in their two-valued form.\<close>

fun as_string :: "gvalue \<Rightarrow> string option" where
  "as_string (VString s) = Some s"
| "as_string (VArray xs) = None"
| "as_string (VNumber n) = None"
| "as_string (VBool b) = None"
| "as_string (VObject kvs) = None"
| "as_string VNil = None"

fun as_array :: "gvalue \<Rightarrow> gvalue list option" where
  "as_array (VString s) = None"
| "as_array (VArray xs) = Some xs"
| "as_array (VNumber n) = None"
| "as_array (VBool b) = None"
| "as_array (VObject kvs) = None"
| "as_array VNil = None"

type_synonym duration = "64 word"

text \<open>The gRPC status codes used by the API layer.\<close>

datatype code = InvalidArgument | Internal

text \<open>
  Go errors. \<open>External\<close> is an error value handed back by a collaborator outside the
  package (the engine, the operating system, a codec). \<open>ContextCanceled\<close> and
  \<open>ContextDeadlineExceeded\<close> are the two errors of package \<open>context\<close>. \<open>ErrInternal\<close> and \<open>ErrScenario\<close>
  are the two error types of package \<open>errs\<close> with their \<open>Sub\<close> field. \<open>Errorf\<close> is
  \<open>fmt.Errorf\<close> with its format and arguments (an \<open>ArgError\<close> argument is the one
  wrapped by \<open>%w\<close>), \<open>Wrapf\<close> is \<open>errors.Wrap\<close>/\<open>errors.Wrapf\<close>, and \<open>Status\<close> is
  \<open>status.Errorf\<close>.
\<close>

datatype error =
    External string
  | ContextCanceled
  | ContextDeadlineExceeded
  | ErrInternal error
  | ErrScenario error
  | Errorf string "fmtarg list"
  | Wrapf error string "fmtarg list"
  | Status code string "fmtarg list"
and fmtarg =
    ArgDuration duration
  | ArgValue gvalue
  | ArgError error
  | ArgString string

text \<open>The kind of an error is the type of the outermost error value.\<close>

datatype error_kind =
  KInternal | KScenario | KDeadlineExceeded | KCanceled | KStatus code | KOther

fun kind_of :: "error \<Rightarrow> error_kind" where
  "kind_of (External s) = KOther"
| "kind_of ContextCanceled = KCanceled"
| "kind_of ContextDeadlineExceeded = KDeadlineExceeded"
| "kind_of (ErrInternal e) = KInternal"
| "kind_of (ErrScenario e) = KScenario"
| "kind_of (Errorf f args) = KOther"
| "kind_of (Wrapf e f args) = KOther"
| "kind_of (Status c f args) = KStatus c"

text \<open>
  The result of a call that can also panic (a failed one-valued type assertion):
  it returns normally, returns an error, or panics.
\<close>

datatype 'a outcome = Ok 'a | Err error | Panic

fun obind :: "'a outcome \<Rightarrow> ('a \<Rightarrow> 'b outcome) \<Rightarrow> 'b outcome" where
  "obind (Ok x) f = f x"
| "obind (Err e) f = Err e"
| "obind Panic f = Panic"

section \<open>Records of the store\<close>

text \<open>
  Modelled from the spec: the declarations of \<open>fsapi.Challenge\<close> and \<open>fsapi.Instance\<close>
  (package \<open>pkg/fs\<close>) with the fields of the data model. Instants are integers, a Go
  \<open>map[string]string\<close> is the list of its entries in the order a \<open>range\<close> visits them
  (\<open>nil\<close> is the empty list), and the state is the raw JSON text.
\<close>

type_synonym gomap = "(string \<times> string) list"

record Challenge =
  ID :: string
  Scenario :: string
  Hash :: string
  Until :: "int option"
  Timeout :: "int option"
  Min :: int
  Max :: int
  Additional :: gomap
  ImagePullSecrets :: "string list"

record Instance =
  Identity :: string
  ChallengeID :: string
  SourceID :: string
  Since :: int
  LastRenew :: int
  IUntil :: "int option"
  ConnectionInfo :: string
  Flags :: "string list"
  State :: string
  IAdditional :: gomap

section \<open>The engine and its stacks\<close>

record ConfigValue =
  CValue :: string
  Secret :: bool

record OutputValue =
  Value :: gvalue
  OSecret :: bool

text \<open>\<open>auto.UpResult\<close>: the named outputs (a map that may be \<open>nil\<close>).\<close>

record UpResult =
  Outputs :: "(string \<rightharpoonup> OutputValue) option"

record Result =
  sub :: UpResult

text \<open>\<open>apitype.UntypedDeployment\<close>.\<close>

record UntypedDeployment =
  Version :: int
  Deployment :: string

text \<open>
  A stack of the engine (\<open>auto.Stack\<close>): its fully qualified name, the working
  directory and environment of its workspace, and its configuration.
\<close>

record LocalWorkspace =
  WorkDir :: string
  EnvVars :: "string \<rightharpoonup> string"

record autoStack =
  stackName :: string
  workspace :: LocalWorkspace
  config :: "string \<rightharpoonup> ConfigValue"

record Stack =
  pas :: autoStack

text \<open>
  A context carries the time left until its deadline, if it has one. \<open>WithTimeout\<close>
  keeps the deadline of the parent when that one is earlier.
\<close>

record gocontext =
  remaining :: "duration option"

definition WithTimeout :: "gocontext \<Rightarrow> duration \<Rightarrow> gocontext" where
  "WithTimeout parent timeout =
     \<lparr>remaining = Some (case remaining parent of
          None \<Rightarrow> timeout
        | Some cur \<Rightarrow> if sint cur < sint timeout then cur else timeout)\<rparr>"

record Project =
  Name :: string

text \<open>
  \<open>global.Configuration\<close>, with the nested structs flattened. \<open>PulumiTimeout\<close> is a Go
  \<open>int\<close> (64 bits), and a \<open>time.Duration\<close> is a signed 64-bit count of nanoseconds, so
  the product with \<open>time.Second\<close> wraps around.
\<close>

record Configuration =
  Directory :: string
  Cache :: string
  LogLevel :: string
  PulumiTimeout :: "64 word"
  Otel_Tracing :: bool
  Otel_ServiceName :: string
  Etcd_Endpoint :: string
  Etcd_Username :: string
  Etcd_Password :: string
  OCI_Insecure :: bool
  OCI_Username :: string
  OCI_Password :: string

text \<open>
  Everything the package calls outside itself: the OCI manager, the file system, the
  codecs, the random source and the engine. Each field gives the outcome of the call on
  its arguments. An engine operation run under a context returns its result together
  with the \<open>Err()\<close> of that context when it returns (\<open>nil\<close>, \<open>context.Canceled\<close> or
  \<open>context.DeadlineExceeded\<close>).
\<close>

record world =
  oci_Load :: "string \<Rightarrow> error + string"
  os_ReadFile :: "string \<Rightarrow> error + string"
  yaml_Unmarshal :: "string \<Rightarrow> error + Project"
  os_UserHomeDir :: string
  json_Marshal_strings :: "string list \<Rightarrow> error + string"
  json_Marshal_map :: "gomap \<Rightarrow> error + string"
  rand_Read :: "nat \<Rightarrow> 8 word list"
  auto_NewLocalWorkspace :: "string \<Rightarrow> (string \<rightharpoonup> string) \<Rightarrow> error option"
  auto_UpsertStack :: "string \<Rightarrow> LocalWorkspace \<Rightarrow> error + (string \<rightharpoonup> ConfigValue)"
  pas_SetAllConfig :: "autoStack \<Rightarrow> (string \<rightharpoonup> ConfigValue) \<Rightarrow> error option"
  pas_SetConfig :: "autoStack \<Rightarrow> string \<Rightarrow> ConfigValue \<Rightarrow> error option"
  pas_Up :: "gocontext \<Rightarrow> autoStack \<Rightarrow> (error + UpResult) \<times> error option"
  pas_Preview :: "gocontext \<Rightarrow> autoStack \<Rightarrow> (error + unit) \<times> error option"
  pas_Destroy :: "gocontext \<Rightarrow> autoStack \<Rightarrow> (error + unit) \<times> error option"
  pas_Export :: "autoStack \<Rightarrow> error + UntypedDeployment"

section \<open>Export\<close>

text \<open>The loop over the entries of the \<open>flags\<close> output.\<close>

fun flags_loop :: "gvalue list \<Rightarrow> string list \<Rightarrow> string list outcome" where
  "flags_loop [] flags = Ok flags"
| "flags_loop (f # fs) flags =
     (case as_string f of
        None \<Rightarrow> Err (ErrInternal (Errorf ''invalid flag type for %v, should be a string'' [ArgValue f]))
      | Some s \<Rightarrow> flags_loop fs (flags @ [s]))"

text \<open>
  \<open>Stack.Export\<close>. The test \<open>!ok\<close> after the loop reads the \<open>ok\<close> of the lookup of
  \<open>flags\<close> (the \<open>ok\<close> of the type assertion is local to the inner \<open>if\<close>), which is true
  in that branch. The one-valued assertions \<open>.(string)\<close> panic on another type.
\<close>

definition Export :: "world \<Rightarrow> Stack \<Rightarrow> Result option \<Rightarrow> Instance \<Rightarrow> Instance outcome" where
  "Export w stack res ist =
     (case pas_Export w (pas stack) of
        Inl err \<Rightarrow> Err (ErrInternal err)
      | Inr udp \<Rightarrow>
         (case (case res of None \<Rightarrow> None | Some r \<Rightarrow> Outputs (sub r)) of
            None \<Rightarrow> Err (ErrInternal (Errorf ''stack outputs are nil - stack operation may have failed'' []))
          | Some outs \<Rightarrow>
             (case outs ''connection_info'' of
                None \<Rightarrow> Err (ErrInternal (Errorf ''connection_info output not found in stack outputs'' []))
              | Some coninfo \<Rightarrow>
                 obind (case outs ''flag'' of
                          None \<Rightarrow> Ok []
                        | Some f \<Rightarrow> (case as_string (Value f) of None \<Rightarrow> Panic | Some s \<Rightarrow> Ok ([] @ [s])))
                   (\<lambda>flags.
                 obind (case outs ''flags'' of
                          None \<Rightarrow> Ok flags
                        | Some f \<Rightarrow>
                            (let ok = True in
                             obind (case as_array (Value f) of
                                      None \<Rightarrow> Ok flags
                                    | Some fs \<Rightarrow> flags_loop fs flags)
                               (\<lambda>flags.
                             if \<not> ok
                             then Err (ErrInternal (Errorf ''invalid flags type, should be an array'' []))
                             else Ok flags)))
                   (\<lambda>flags.
                 (case as_string (Value coninfo) of
                    None \<Rightarrow> Panic
                  | Some c \<Rightarrow>
                      Ok (ist\<lparr>State := Deployment udp, ConnectionInfo := c, Flags := flags\<rparr>)))))))"

section \<open>Paths\<close>

text \<open>
  Package \<open>path/filepath\<close> of the Go standard library on Unix, element by element.
  \<open>split_sep\<close> cuts a path at every separator and \<open>join_sep\<close> is \<open>strings.Join\<close> with the
  separator.
\<close>

fun split_sep :: "string \<Rightarrow> string list" where
  "split_sep [] = [[]]"
| "split_sep (c # cs) =
     (if c = CHR ''/'' then [] # split_sep cs
      else (case split_sep cs of
              [] \<Rightarrow> [[c]]
            | e # es \<Rightarrow> (c # e) # es))"

fun join_sep :: "string list \<Rightarrow> string" where
  "join_sep [] = []"
| "join_sep [e] = e"
| "join_sep (e # e' # es) = e @ ''/'' @ join_sep (e' # es)"

text \<open>
  \<open>Clean\<close> drops empty and \<open>.\<close> elements, lets a \<open>..\<close> remove the element before it,
  drops a \<open>..\<close> at the root and keeps one that begins a relative path.
\<close>

fun clean_elems :: "bool \<Rightarrow> string list \<Rightarrow> string list \<Rightarrow> string list" where
  "clean_elems rooted [] out = out"
| "clean_elems rooted (e # es) out =
     (if e = [] \<or> e = ''.'' then clean_elems rooted es out
      else if e = ''..'' then
        (if out \<noteq> [] \<and> last out \<noteq> ''..'' then clean_elems rooted es (butlast out)
         else if \<not> rooted then clean_elems rooted es (out @ [''..''])
         else clean_elems rooted es out)
      else clean_elems rooted es (out @ [e]))"

definition Clean :: "string \<Rightarrow> string" where
  "Clean path =
     (if path = [] then ''.''
      else
        (let rooted = (hd path = CHR ''/'');
             out = clean_elems rooted (split_sep path) []
         in if rooted then ''/'' @ join_sep out
            else if out = [] then ''.''
            else join_sep out))"

fun Join :: "string list \<Rightarrow> string" where
  "Join [] = []"
| "Join (e # es) = (if e \<noteq> [] then Clean (join_sep (e # es)) else Join es)"

definition Dir :: "string \<Rightarrow> string" where
  "Dir path = Clean (rev (dropWhile (\<lambda>c. c \<noteq> CHR ''/'') (rev path)))"

definition HasPrefix :: "string \<Rightarrow> string \<Rightarrow> bool" where
  "HasPrefix s pre = prefix pre s"

text \<open>
  A path lies inside a directory when its elements continue the elements of the
  directory by at least one and none of them steps back.
\<close>

definition inside :: "string \<Rightarrow> string \<Rightarrow> bool" where
  "inside dir p \<longleftrightarrow>
     strict_prefix (split_sep dir) (split_sep p) \<and> ''..'' \<notin> set (split_sep p)"

text \<open>A proper element of a path: not empty, not \<open>.\<close>, not \<open>..\<close>, and free of separators.\<close>

definition real_elem :: "string \<Rightarrow> bool" where
  "real_elem e \<longleftrightarrow> e \<noteq> [] \<and> e \<noteq> ''.'' \<and> e \<noteq> ''..'' \<and> CHR ''/'' \<notin> set e"

section \<open>Loading and configuring a stack\<close>

text \<open>\<open>auto.FullyQualifiedStackName\<close> of the engine's SDK: the three parts joined by slashes.\<close>

definition FullyQualifiedStackName :: "string \<Rightarrow> string \<Rightarrow> string \<Rightarrow> string" where
  "FullyQualifiedStackName org project stack = org @ ''/'' @ project @ ''/'' @ stack"

text \<open>
  Setting configuration on a stack either fails, as the engine decides, or stores the
  values under their keys.
\<close>

definition SetAllConfig :: "world \<Rightarrow> autoStack \<Rightarrow> (string \<rightharpoonup> ConfigValue) \<Rightarrow> error + autoStack" where
  "SetAllConfig w s cfg =
     (case pas_SetAllConfig w s cfg of
        Some err \<Rightarrow> Inl err
      | None \<Rightarrow> Inr (s\<lparr>config := config s ++ cfg\<rparr>))"

definition SetConfig :: "world \<Rightarrow> autoStack \<Rightarrow> string \<Rightarrow> ConfigValue \<Rightarrow> error + autoStack" where
  "SetConfig w s k v =
     (case pas_SetConfig w s k v of
        Some err \<Rightarrow> Inl err
      | None \<Rightarrow> Inr (s\<lparr>config := (config s)(k \<mapsto> v)\<rparr>))"

definition loadPulumiYml :: "world \<Rightarrow> string \<Rightarrow> error + string" where
  "loadPulumiYml w dir =
     (case os_ReadFile w (Join [dir, ''Pulumi.yaml'']) of
        Inr b \<Rightarrow> Inr b
      | Inl err \<Rightarrow>
         (case os_ReadFile w (Join [dir, ''Pulumi.yml'']) of
            Inr b \<Rightarrow> Inr b
          | Inl err \<Rightarrow> Inl err))"

text \<open>
  \<open>LoadStack\<close>. Tracing, logging and the two \<open>os.MkdirAll\<close> calls whose errors are
  dropped leave no trace in the result.
  The parameter \<open>id\<close> is written \<open>ident\<close>.
\<close>

definition LoadStack :: "Configuration \<Rightarrow> world \<Rightarrow> string \<Rightarrow> string \<Rightarrow> error + Stack" where
  "LoadStack conf w scenario ident =
     (case oci_Load w scenario of
        Inl err \<Rightarrow> Inl err
      | Inr dir \<Rightarrow>
         (case loadPulumiYml w dir of
            Inl err \<Rightarrow> Inl (ErrScenario (Wrapf err ''no Pulumi.yaml/Pulumi.yml file'' []))
          | Inr b \<Rightarrow>
             (case yaml_Unmarshal w b of
                Inl err \<Rightarrow> Inl (ErrScenario (Wrapf err ''invalid Pulumi YAML content'' []))
              | Inr yml \<Rightarrow>
                 (let cacheDir = (if Cache conf = []
                                  then Join [os_UserHomeDir w, ''.cache'', ''chall-manager'']
                                  else Cache conf);
                      envVars = [''PULUMI_CONFIG_PASSPHRASE'' \<mapsto> [], ''CM_PROJECT'' \<mapsto> Name yml];
                      goCache = Join [cacheDir, ''go-build''];
                      goModCache = Join [cacheDir, ''go-mod''];
                      envVars = envVars(''GOCACHE'' \<mapsto> goCache, ''GOMODCACHE'' \<mapsto> goModCache)
                  in case auto_NewLocalWorkspace w dir envVars of
                       Some err \<Rightarrow> Inl (ErrInternal (Wrapf err ''new local workspace'' []))
                     | None \<Rightarrow>
                        (let ws = \<lparr>WorkDir = dir, EnvVars = envVars\<rparr>;
                             stackName = FullyQualifiedStackName ''organization'' (Name yml) ident
                         in case auto_UpsertStack w stackName ws of
                              Inl err \<Rightarrow>
                                Inl (ErrInternal (Wrapf err ''upsert stack %s'' [ArgString stackName]))
                            | Inr cfg \<Rightarrow>
                                Inr \<lparr>pas = \<lparr>stackName = stackName, workspace = ws, config = cfg\<rparr>\<rparr>)))))"

definition NewStack :: "Configuration \<Rightarrow> world \<Rightarrow> Challenge \<Rightarrow> string \<Rightarrow> error + Stack" where
  "NewStack conf w fschall ident =
     (case LoadStack conf w (Scenario fschall) ident of
        Inl err \<Rightarrow> Inl (ErrInternal err)
      | Inr stack \<Rightarrow>
         (let cfg = [''identity'' \<mapsto> \<lparr>CValue = ident, Secret = False\<rparr>,
                     ''challenge_id'' \<mapsto> \<lparr>CValue = ID fschall, Secret = False\<rparr>]
          in case (if length (ImagePullSecrets fschall) > 0
                   then (case json_Marshal_strings w (ImagePullSecrets fschall) of
                           Inl err \<Rightarrow> Inl (ErrInternal err)
                         | Inr b \<Rightarrow> Inr (cfg(''image_pull_secrets'' \<mapsto> \<lparr>CValue = b, Secret = False\<rparr>)))
                   else Inr cfg) of
               Inl err \<Rightarrow> Inl err
             | Inr cfg \<Rightarrow>
                (case SetAllConfig w (pas stack) cfg of
                   Inl err \<Rightarrow> Inl (ErrInternal err)
                 | Inr p \<Rightarrow> Inr (stack\<lparr>pas := p\<rparr>))))"

text \<open>
  \<open>Additional\<close>: the two \<open>range\<close> loops fill the merged map \<open>cm\<close> (an assignment
  \<open>cm[k] = v\<close> replaces the value of a key already there and adds the key otherwise),
  which is encoded and stored under the key \<open>additional\<close>.
\<close>

definition Additional_cm :: "gomap \<Rightarrow> gomap \<Rightarrow> gomap" where
  "Additional_cm challAdd istAdd =
     (let cm = [];
          cm = fold (\<lambda>(k, v) cm. AList.update k v cm) challAdd cm;
          cm = fold (\<lambda>(k, v) cm. AList.update k v cm) istAdd cm
      in cm)"

definition Additional_op :: "world \<Rightarrow> Stack \<Rightarrow> gomap \<Rightarrow> gomap \<Rightarrow> error + Stack" where
  "Additional_op w stack challAdd istAdd =
     (let cm = Additional_cm challAdd istAdd
      in case json_Marshal_map w cm of
           Inl err \<Rightarrow> Inl err
         | Inr b \<Rightarrow>
            (case SetConfig w (pas stack) ''additional'' \<lparr>CValue = b, Secret = False\<rparr> of
               Inl err \<Rightarrow> Inl err
             | Inr p \<Rightarrow> Inr (stack\<lparr>pas := p\<rparr>)))"

section \<open>Engine operations under a deadline\<close>

definition Second :: duration where
  "Second = 1000000000"

definition Minute :: duration where
  "Minute = 60 * Second"

definition Up :: "Configuration \<Rightarrow> world \<Rightarrow> Stack \<Rightarrow> gocontext \<Rightarrow> error + Result" where
  "Up conf w stack ctx =
     (let timeout = PulumiTimeout conf * Second;
          timeout = (if timeout = 0 then 2 * Minute else timeout);
          timeoutCtx = WithTimeout ctx timeout
      in case pas_Up w timeoutCtx (pas stack) of
           (Inl err, ctxErr) \<Rightarrow>
             if ctxErr = Some ContextDeadlineExceeded
             then Inl (ErrInternal (Errorf ''pulumi operation timed out after %v: %w''
                                      [ArgDuration timeout, ArgError err]))
             else Inl err
         | (Inr res, ctxErr) \<Rightarrow> Inr \<lparr>sub = res\<rparr>)"

definition Preview :: "Configuration \<Rightarrow> world \<Rightarrow> Stack \<Rightarrow> gocontext \<Rightarrow> error option" where
  "Preview conf w stack ctx =
     (let timeout = PulumiTimeout conf * Second;
          timeout = (if timeout = 0 then 2 * Minute else timeout);
          timeoutCtx = WithTimeout ctx timeout
      in case pas_Preview w timeoutCtx (pas stack) of
           (Inl err, ctxErr) \<Rightarrow>
             if ctxErr = Some ContextDeadlineExceeded
             then Some (ErrInternal (Errorf ''pulumi preview timed out after %v: %w''
                                       [ArgDuration timeout, ArgError err]))
             else Some err
         | (Inr u, ctxErr) \<Rightarrow> None)"

definition Down :: "Configuration \<Rightarrow> world \<Rightarrow> Stack \<Rightarrow> gocontext \<Rightarrow> error option" where
  "Down conf w stack ctx =
     (let timeout = PulumiTimeout conf * Second;
          timeout = (if timeout = 0 then 2 * Minute else timeout);
          timeoutCtx = WithTimeout ctx timeout
      in case pas_Destroy w timeoutCtx (pas stack) of
           (Inl err, ctxErr) \<Rightarrow>
             if ctxErr = Some ContextDeadlineExceeded
             then Some (ErrInternal (Errorf ''pulumi destroy timed out after %v: %w''
                                       [ArgDuration timeout, ArgError err]))
             else Some err
         | (Inr u, ctxErr) \<Rightarrow> None)"

section \<open>Validation of a scenario\<close>

definition hextable :: string where
  "hextable = ''0123456789abcdef''"

fun hex_EncodeToString :: "8 word list \<Rightarrow> string" where
  "hex_EncodeToString [] = []"
| "hex_EncodeToString (v # vs) =
     hextable ! unat (drop_bit 4 v) # hextable ! unat (and v 15) # hex_EncodeToString vs"

text \<open>
  \<open>randName\<close>: a buffer of eight zero bytes, filled from its start by \<open>rand.Read\<close>
  (whose error is dropped, so what it does not fill stays zero), written in hexadecimal.
\<close>

definition randName :: "world \<Rightarrow> string" where
  "randName w =
     (let b = replicate 8 0;
          b = take (length b) (rand_Read w (length b) @ b)
      in hex_EncodeToString b)"

definition Validate :: "Configuration \<Rightarrow> world \<Rightarrow> gocontext \<Rightarrow> Challenge \<Rightarrow> error option" where
  "Validate conf w ctx fschall =
     (let rand = randName w
      in case LoadStack conf w (Scenario fschall) rand of
           Inl err \<Rightarrow> Some err
         | Inr stack \<Rightarrow>
            (case SetAllConfig w (pas stack) [''identity'' \<mapsto> \<lparr>CValue = rand, Secret = False\<rparr>] of
               Inl err \<Rightarrow> Some (ErrInternal err)
             | Inr p \<Rightarrow>
                (case Additional_op w (stack\<lparr>pas := p\<rparr>) (Additional fschall) [] of
                   Inl err \<Rightarrow> Some (ErrInternal err)
                 | Inr stack \<Rightarrow>
                    (case pas_Preview w ctx (pas stack) of
                       (Inl err, ctxErr) \<Rightarrow> Some (ErrScenario err)
                     | (Inr u, ctxErr) \<Rightarrow> None))))"

section \<open>Pushing a scenario archive\<close>

record PushScenarioRequest =
  ScenarioZip :: "8 word list"
  Reference :: string

record PushScenarioResponse =
  Success :: bool
  RReference :: string
  Message :: string

text \<open>
  An entry of the archive (\<open>zip.File\<close>): its name, whether it is a directory, its mode,
  the error of opening it if any, and what \<open>io.Copy\<close> writes from it with its error if any.
\<close>

record zipFile =
  FName :: string
  FIsDir :: bool
  FMode :: nat
  FOpen :: "error option"
  FCopy :: "8 word list \<times> error option"

text \<open>What the call does to the file system, in order.\<close>

datatype fs_effect =
    MkdirTemp string
  | MkdirAll string nat
  | CreateFile string nat
  | WriteFile string "8 word list"
  | RemoveAll string

text \<open>
  What \<open>PushScenario\<close> calls outside itself. The file system answers by the effects so
  far and the path.
\<close>

record host =
  os_MkdirTemp :: "error + string"
  zip_NewReader :: "8 word list \<Rightarrow> error + zipFile list"
  os_MkdirAll :: "fs_effect list \<Rightarrow> string \<Rightarrow> error option"
  os_OpenFile :: "fs_effect list \<Rightarrow> string \<Rightarrow> error option"
  scenario_EncodeOCI :: "string \<Rightarrow> string \<Rightarrow> bool \<Rightarrow> string \<Rightarrow> string \<Rightarrow> error option"

definition ModePerm :: nat where
  "ModePerm = 511"

text \<open>The loop over the entries of the archive.\<close>

fun extract_entries :: "host \<Rightarrow> string \<Rightarrow> zipFile list \<Rightarrow> fs_effect list \<Rightarrow> error option \<times> fs_effect list" where
  "extract_entries h tmpDir [] fs = (None, fs)"
| "extract_entries h tmpDir (file # files) fs =
     (let path = Join [tmpDir, FName file]
      in if \<not> HasPrefix path (Clean tmpDir @ ''/'')
         then (Some (Status InvalidArgument ''invalid file path in ZIP: %s'' [ArgString (FName file)]), fs)
         else if FIsDir file
         then extract_entries h tmpDir files (fs @ [MkdirAll path (FMode file)])
         else
           (case os_MkdirAll h fs (Dir path) of
              Some err \<Rightarrow>
                (Some (Status Internal ''failed to create directory: %v'' [ArgError err]),
                 fs @ [MkdirAll (Dir path) ModePerm])
            | None \<Rightarrow>
               (let fs = fs @ [MkdirAll (Dir path) ModePerm]
                in case os_OpenFile h fs path of
                     Some err \<Rightarrow>
                       (Some (Status Internal ''failed to create file: %v'' [ArgError err]), fs)
                   | None \<Rightarrow>
                      (let fs = fs @ [CreateFile path (FMode file)]
                       in case FOpen file of
                            Some err \<Rightarrow>
                              (Some (Status Internal ''failed to open ZIP entry: %v'' [ArgError err]), fs)
                          | None \<Rightarrow>
                             (case FCopy file of
                                (written, Some err) \<Rightarrow>
                                  (Some (Status Internal ''failed to extract file: %v'' [ArgError err]),
                                   fs @ [WriteFile path written])
                              | (written, None) \<Rightarrow>
                                  extract_entries h tmpDir files (fs @ [WriteFile path written]))))))"

definition PushScenario ::
    "Configuration \<Rightarrow> host \<Rightarrow> PushScenarioRequest \<Rightarrow> (error + PushScenarioResponse) \<times> fs_effect list" where
  "PushScenario conf h req =
     (if length (ScenarioZip req) = 0
      then (Inl (Status InvalidArgument ''scenario_zip is required'' []), [])
      else if Reference req = []
      then (Inl (Status InvalidArgument ''reference is required'' []), [])
      else
        (let username = OCI_Username conf;
             password = OCI_Password conf
         in if username = [] \<or> password = []
            then (Inl (Status InvalidArgument
                    ''OCI registry credentials not configured. Set OCI_USERNAME and OCI_PASSWORD environment variables'' []), [])
            else
              (case os_MkdirTemp h of
                 Inl err \<Rightarrow>
                   (Inl (Status Internal ''failed to create temp directory: %v'' [ArgError err]), [])
               | Inr tmpDir \<Rightarrow>
                  (let (r, fs) =
                         (case zip_NewReader h (ScenarioZip req) of
                            Inl err \<Rightarrow>
                              (Inl (Status InvalidArgument ''invalid ZIP archive: %v'' [ArgError err]),
                               [MkdirTemp tmpDir])
                          | Inr files \<Rightarrow>
                             (case extract_entries h tmpDir files [MkdirTemp tmpDir] of
                                (Some err, fs) \<Rightarrow> (Inl err, fs)
                              | (None, fs) \<Rightarrow>
                                 (case scenario_EncodeOCI h (Reference req) tmpDir (OCI_Insecure conf)
                                         username password of
                                    Some err \<Rightarrow>
                                      (Inl (Status Internal ''failed to push scenario: %v'' [ArgError err]), fs)
                                  | None \<Rightarrow>
                                      (Inr \<lparr>Success = True, RReference = Reference req,
                                            Message = ''Successfully pushed scenario to '' @ Reference req\<rparr>,
                                       fs))))
                   in (r, fs @ [RemoveAll tmpDir])))))"

text \<open>
  An effect stays within a directory when what it creates or writes lies inside the
  directory, or is the directory itself for \<open>MkdirAll\<close>. The creation and the removal of
  the temporary directory are not restricted.
\<close>

fun safe_effect :: "string \<Rightarrow> fs_effect \<Rightarrow> bool" where
  "safe_effect dir (MkdirTemp p) = True"
| "safe_effect dir (MkdirAll p m) = (inside dir p \<or> p = dir)"
| "safe_effect dir (CreateFile p m) = inside dir p"
| "safe_effect dir (WriteFile p c) = inside dir p"
| "safe_effect dir (RemoveAll p) = True"

section \<open>Example inputs\<close>

text \<open>
  A world in which every collaborator succeeds: the scenario directory holds a project
  descriptor naming the project \<open>demo\<close>, the codecs write plain JSON for strings without
  special characters (the entries of a map in the order given), and the engine reports a
  connection string and both kinds of flags.
\<close>

definition quote :: "string \<Rightarrow> string" where
  "quote s = CHR 0x22 # s @ [CHR 0x22]"

fun commas :: "string list \<Rightarrow> string" where
  "commas [] = []"
| "commas [x] = x"
| "commas (x # y # ys) = x @ '','' @ commas (y # ys)"

definition example_outputs :: "string \<rightharpoonup> OutputValue" where
  "example_outputs =
     [''connection_info'' \<mapsto> \<lparr>Value = VString ''nc 127.0.0.1 31000'', OSecret = False\<rparr>,
      ''flag'' \<mapsto> \<lparr>Value = VString ''FLAG{one}'', OSecret = True\<rparr>,
      ''flags'' \<mapsto> \<lparr>Value = VArray [VString ''FLAG{two}'', VString ''FLAG{three}''], OSecret = True\<rparr>]"

definition example_world :: world where
  "example_world =
     \<lparr>oci_Load = (\<lambda>ref. Inr ''/cache/oci/demo''),
      os_ReadFile = (\<lambda>path. if path = ''/cache/oci/demo/Pulumi.yaml'' then Inr ''name: demo''
                            else Inl (External ''no such file or directory'')),
      yaml_Unmarshal = (\<lambda>b. if b = ''name: demo'' then Inr \<lparr>Name = ''demo''\<rparr>
                             else Inl (External ''cannot unmarshal'')),
      os_UserHomeDir = ''/root'',
      json_Marshal_strings = (\<lambda>xs. Inr (''['' @ commas (map quote xs) @ '']'')),
      json_Marshal_map =
        (\<lambda>kvs. Inr (''{'' @ commas (map (\<lambda>(k, v). quote k @ '':'' @ quote v) kvs) @ ''}'')),
      rand_Read = (\<lambda>n. replicate n 171),
      auto_NewLocalWorkspace = (\<lambda>dir env. None),
      auto_UpsertStack = (\<lambda>name ws. Inr Map.empty),
      pas_SetAllConfig = (\<lambda>s cfg. None),
      pas_SetConfig = (\<lambda>s k v. None),
      pas_Up = (\<lambda>ctx s. (Inr \<lparr>Outputs = Some example_outputs\<rparr>, None)),
      pas_Preview = (\<lambda>ctx s. (Inr (), None)),
      pas_Destroy = (\<lambda>ctx s. (Inr (), None)),
      pas_Export = (\<lambda>s. Inr \<lparr>Version = 3, Deployment = ''{}''\<rparr>)\<rparr>"

text \<open>
  A world whose engine waits for a resource that never comes: under a context with a
  deadline every operation ends in an error once the deadline has passed.
\<close>

definition hanging_world :: world where
  "hanging_world =
     example_world
       \<lparr>pas_Up := (\<lambda>ctx s. case remaining ctx of
                     None \<Rightarrow> (Inr \<lparr>Outputs = Some example_outputs\<rparr>, None)
                   | Some d \<Rightarrow> (Inl (External ''waiting for LoadBalancer IP''),
                               Some ContextDeadlineExceeded)),
        pas_Preview := (\<lambda>ctx s. case remaining ctx of
                     None \<Rightarrow> (Inr (), None)
                   | Some d \<Rightarrow> (Inl (External ''waiting for LoadBalancer IP''),
                               Some ContextDeadlineExceeded)),
        pas_Destroy := (\<lambda>ctx s. case remaining ctx of
                     None \<Rightarrow> (Inr (), None)
                   | Some d \<Rightarrow> (Inl (External ''waiting for LoadBalancer IP''),
                               Some ContextDeadlineExceeded))\<rparr>"

text \<open>A world whose scenario directory has no project descriptor.\<close>

definition undescribed_world :: world where
  "undescribed_world =
     example_world\<lparr>os_ReadFile := (\<lambda>path. Inl (External ''no such file or directory''))\<rparr>"

text \<open>
  Worlds in which one step of loading fails: the registry cannot be reached, the
  descriptor is not valid YAML, the workspace cannot be created, the engine cannot open
  or create the stack. And a world whose descriptor is the file \<open>Pulumi.yml\<close> and declares
  another project.
\<close>

definition unreachable_world :: world where
  "unreachable_world = example_world\<lparr>oci_Load := (\<lambda>ref. Inl (External ''registry unreachable''))\<rparr>"

definition malformed_world :: world where
  "malformed_world =
     example_world\<lparr>yaml_Unmarshal := (\<lambda>b. Inl (External ''yaml: did not find expected key''))\<rparr>"

definition noworkspace_world :: world where
  "noworkspace_world =
     example_world\<lparr>auto_NewLocalWorkspace := (\<lambda>dir env. Some (External ''pulumi not installed''))\<rparr>"

definition noupsert_world :: world where
  "noupsert_world =
     example_world\<lparr>auto_UpsertStack := (\<lambda>name ws. Inl (External ''backend unavailable''))\<rparr>"

definition yml_world :: world where
  "yml_world =
     example_world
       \<lparr>os_ReadFile := (\<lambda>path. if path = ''/cache/oci/demo/Pulumi.yml'' then Inr ''name: other''
                              else Inl (External ''no such file or directory'')),
        yaml_Unmarshal := (\<lambda>b. if b = ''name: other'' then Inr \<lparr>Name = ''other''\<rparr>
                               else Inl (External ''cannot unmarshal''))\<rparr>"

text \<open>
  A world whose engine refuses to store configuration, one that refuses single keys
  only, and one whose preview fails.
\<close>

definition readonly_world :: world where
  "readonly_world = example_world\<lparr>pas_SetConfig := (\<lambda>s k v. Some (External ''config is read-only''))\<rparr>"

definition locked_world :: world where
  "locked_world = example_world\<lparr>pas_SetAllConfig := (\<lambda>s cfg. Some (External ''config is locked''))\<rparr>"

definition failing_preview_world :: world where
  "failing_preview_world =
     example_world\<lparr>pas_Preview := (\<lambda>ctx s. (Inl (External ''program does not compile''), None))\<rparr>"

definition example_conf :: Configuration where
  "example_conf =
     \<lparr>Directory = ''/data'', Cache = ''/cache'', LogLevel = ''info'', PulumiTimeout = 5,
      Otel_Tracing = False, Otel_ServiceName = ''chall-manager'',
      Etcd_Endpoint = [], Etcd_Username = [], Etcd_Password = [],
      OCI_Insecure = False, OCI_Username = ''ctf'', OCI_Password = ''secret''\<rparr>"

definition example_challenge :: Challenge where
  "example_challenge =
     \<lparr>ID = ''c1'', Scenario = ''registry.local/demo:v1'', Hash = ''0a1b'',
      Until = None, Timeout = Some 60, Min = 0, Max = 0,
      Additional = [(''mode'', ''easy''), (''team'', ''blue'')],
      ImagePullSecrets = []\<rparr>"

text \<open>The stack that loading the example scenario for the identity \<open>abc\<close> yields.\<close>

definition example_stack :: Stack where
  "example_stack =
     \<lparr>pas = \<lparr>stackName = ''organization/demo/abc'',
             workspace = \<lparr>WorkDir = ''/cache/oci/demo'',
                          EnvVars = [''PULUMI_CONFIG_PASSPHRASE'' \<mapsto> [], ''CM_PROJECT'' \<mapsto> ''demo'',
                                     ''GOCACHE'' \<mapsto> ''/cache/go-build'',
                                     ''GOMODCACHE'' \<mapsto> ''/cache/go-mod'']\<rparr>,
             config = Map.empty\<rparr>\<rparr>"

definition example_instance :: Instance where
  "example_instance =
     \<lparr>Identity = ''abc'', ChallengeID = ''c1'', SourceID = ''u1'', Since = 100, LastRenew = 100,
      IUntil = Some 160, ConnectionInfo = [], Flags = [], State = [],
      IAdditional = [(''mode'', ''hard'')]\<rparr>"

definition background :: gocontext where
  "background = \<lparr>remaining = None\<rparr>"

text \<open>
  A host on which every file operation succeeds, with two archives: one holding a
  descriptor, a directory and a source file, and one whose second entry climbs out of
  the extraction directory.
\<close>

definition example_entries :: "zipFile list" where
  "example_entries =
     [\<lparr>FName = ''Pulumi.yaml'', FIsDir = False, FMode = 420, FOpen = None, FCopy = ([110, 97], None)\<rparr>,
      \<lparr>FName = ''src/'', FIsDir = True, FMode = 493, FOpen = None, FCopy = ([], None)\<rparr>,
      \<lparr>FName = ''src/main.go'', FIsDir = False, FMode = 420, FOpen = None, FCopy = ([112], None)\<rparr>]"

definition evil_entries :: "zipFile list" where
  "evil_entries =
     [\<lparr>FName = ''Pulumi.yaml'', FIsDir = False, FMode = 420, FOpen = None, FCopy = ([110, 97], None)\<rparr>,
      \<lparr>FName = ''../../etc/cron.d/job'', FIsDir = False, FMode = 420, FOpen = None,
       FCopy = ([42], None)\<rparr>,
      \<lparr>FName = ''main.go'', FIsDir = False, FMode = 420, FOpen = None, FCopy = ([112], None)\<rparr>]"

definition example_host :: host where
  "example_host =
     \<lparr>os_MkdirTemp = Inr ''/tmp/scenario-push-1'',
      zip_NewReader = (\<lambda>zip. if zip = [80, 75, 3, 4] then Inr example_entries
                            else if zip = [80, 75, 5, 6] then Inr evil_entries
                            else Inl (External ''zip: not a valid zip file'')),
      os_MkdirAll = (\<lambda>fs p. None),
      os_OpenFile = (\<lambda>fs p. None),
      scenario_EncodeOCI = (\<lambda>ref dir insecure username password. None)\<rparr>"

definition example_request :: PushScenarioRequest where
  "example_request = \<lparr>ScenarioZip = [80, 75, 3, 4], Reference = ''registry.local/demo:v1''\<rparr>"

definition evil_request :: PushScenarioRequest where
  "evil_request = \<lparr>ScenarioZip = [80, 75, 5, 6], Reference = ''registry.local/demo:v1''\<rparr>"

section \<open>Export: flags, connection information and frame\<close>

lemma flags_loop_strings: "flags_loop (map VString ss) acc = Ok (acc @ ss)"
  by (induction ss arbitrary: acc) simp_all

lemma flags_loop_bad:
  "as_string v = None \<Longrightarrow>
   flags_loop (map VString ss @ v # rest) acc =
     Err (ErrInternal (Errorf ''invalid flag type for %v, should be a string'' [ArgValue v]))"
  by (induction ss arbitrary: acc) simp_all

lemma Export_Ok_D:
  "Export w stack res ist = Ok ist' \<Longrightarrow>
   \<exists>udp r outs coninfo c flags.
     pas_Export w (pas stack) = Inr udp \<and> res = Some r \<and> Outputs (sub r) = Some outs \<and>
     outs ''connection_info'' = Some coninfo \<and> as_string (Value coninfo) = Some c \<and>
     ist' = ist\<lparr>State := Deployment udp, ConnectionInfo := c, Flags := flags\<rparr>"
  unfolding Export_def
  by (auto split: sum.splits option.splits outcome.splits if_splits simp: Let_def elim!: obind.elims)

text \<open>
  Claim C3. Once the deployment is exported and the outputs hold a string under
  \<open>connection_info\<close>: with only a string \<open>flag\<close> the flags of the instance are that one
  flag; with only a \<open>flags\<close> list of strings they are that list; with both they are the
  single flag followed by the list in its order; and a \<open>flags\<close> list with an entry that
  is not a string makes \<open>Export\<close> return the error \<open>invalid flag type\<close> for the first
  such entry.
\<close>

theorem Export_flags:
  assumes "pas_Export w (pas stack) = Inr udp"
      and "res = Some r" and "Outputs (sub r) = Some outs"
      and "outs ''connection_info'' = Some coninfo" and "Value coninfo = VString c"
  shows "(outs ''flag'' = Some f \<and> Value f = VString s \<and> outs ''flags'' = None \<longrightarrow>
            Export w stack res ist =
              Ok (ist\<lparr>State := Deployment udp, ConnectionInfo := c, Flags := [s]\<rparr>))
       \<and> (outs ''flag'' = None \<and> outs ''flags'' = Some fl \<and> Value fl = VArray (map VString ss) \<longrightarrow>
            Export w stack res ist =
              Ok (ist\<lparr>State := Deployment udp, ConnectionInfo := c, Flags := ss\<rparr>))
       \<and> (outs ''flag'' = Some f \<and> Value f = VString s \<and>
          outs ''flags'' = Some fl \<and> Value fl = VArray (map VString ss) \<longrightarrow>
            Export w stack res ist =
              Ok (ist\<lparr>State := Deployment udp, ConnectionInfo := c, Flags := s # ss\<rparr>))
       \<and> ((outs ''flag'' = None \<or> (outs ''flag'' = Some f \<and> Value f = VString s)) \<and>
          outs ''flags'' = Some fl \<and> Value fl = VArray (map VString ss @ v # rest) \<and>
          as_string v = None \<longrightarrow>
            Export w stack res ist =
              Err (ErrInternal (Errorf ''invalid flag type for %v, should be a string'' [ArgValue v])))"
  using assms unfolding Export_def
  by (auto simp: flags_loop_strings flags_loop_bad)

theorem Export_flags_witness:
  "Export example_world example_stack
     (Some \<lparr>sub = \<lparr>Outputs = Some (example_outputs(''flags'' := None))\<rparr>\<rparr>) example_instance =
     Ok (example_instance\<lparr>State := ''{}'', ConnectionInfo := ''nc 127.0.0.1 31000'',
                          Flags := [''FLAG{one}'']\<rparr>)
   \<and> Export example_world example_stack
     (Some \<lparr>sub = \<lparr>Outputs = Some (example_outputs(''flag'' := None))\<rparr>\<rparr>) example_instance =
     Ok (example_instance\<lparr>State := ''{}'', ConnectionInfo := ''nc 127.0.0.1 31000'',
                          Flags := [''FLAG{two}'', ''FLAG{three}'']\<rparr>)
   \<and> Export example_world example_stack
     (Some \<lparr>sub = \<lparr>Outputs = Some example_outputs\<rparr>\<rparr>) example_instance =
     Ok (example_instance\<lparr>State := ''{}'', ConnectionInfo := ''nc 127.0.0.1 31000'',
                          Flags := [''FLAG{one}'', ''FLAG{two}'', ''FLAG{three}'']\<rparr>)
   \<and> Export example_world example_stack
     (Some \<lparr>sub = \<lparr>Outputs = Some (example_outputs(''flags'' \<mapsto>
        \<lparr>Value = VArray [VString ''FLAG{two}'', VNumber 7, VString ''FLAG{three}''],
         OSecret = True\<rparr>))\<rparr>\<rparr>) example_instance =
     Err (ErrInternal (Errorf ''invalid flag type for %v, should be a string'' [ArgValue (VNumber 7)]))"
  using
    Export_flags [where w = example_world and stack = example_stack
      and udp = "\<lparr>Version = 3, Deployment = ''{}''\<rparr>"
      and res = "Some \<lparr>sub = \<lparr>Outputs = Some (example_outputs(''flags'' := None))\<rparr>\<rparr>"
      and r = "\<lparr>sub = \<lparr>Outputs = Some (example_outputs(''flags'' := None))\<rparr>\<rparr>"
      and outs = "example_outputs(''flags'' := None)"
      and coninfo = "\<lparr>Value = VString ''nc 127.0.0.1 31000'', OSecret = False\<rparr>"
      and c = "''nc 127.0.0.1 31000''"
      and f = "\<lparr>Value = VString ''FLAG{one}'', OSecret = True\<rparr>" and s = "''FLAG{one}''"
      and ist = example_instance]
    Export_flags [where w = example_world and stack = example_stack
      and udp = "\<lparr>Version = 3, Deployment = ''{}''\<rparr>"
      and res = "Some \<lparr>sub = \<lparr>Outputs = Some (example_outputs(''flag'' := None))\<rparr>\<rparr>"
      and r = "\<lparr>sub = \<lparr>Outputs = Some (example_outputs(''flag'' := None))\<rparr>\<rparr>"
      and outs = "example_outputs(''flag'' := None)"
      and coninfo = "\<lparr>Value = VString ''nc 127.0.0.1 31000'', OSecret = False\<rparr>"
      and c = "''nc 127.0.0.1 31000''"
      and fl = "\<lparr>Value = VArray [VString ''FLAG{two}'', VString ''FLAG{three}''], OSecret = True\<rparr>"
      and ss = "[''FLAG{two}'', ''FLAG{three}'']"
      and ist = example_instance]
    Export_flags [where w = example_world and stack = example_stack
      and udp = "\<lparr>Version = 3, Deployment = ''{}''\<rparr>"
      and res = "Some \<lparr>sub = \<lparr>Outputs = Some example_outputs\<rparr>\<rparr>"
      and r = "\<lparr>sub = \<lparr>Outputs = Some example_outputs\<rparr>\<rparr>"
      and outs = example_outputs
      and coninfo = "\<lparr>Value = VString ''nc 127.0.0.1 31000'', OSecret = False\<rparr>"
      and c = "''nc 127.0.0.1 31000''"
      and f = "\<lparr>Value = VString ''FLAG{one}'', OSecret = True\<rparr>" and s = "''FLAG{one}''"
      and fl = "\<lparr>Value = VArray [VString ''FLAG{two}'', VString ''FLAG{three}''], OSecret = True\<rparr>"
      and ss = "[''FLAG{two}'', ''FLAG{three}'']"
      and ist = example_instance]
    Export_flags [where w = example_world and stack = example_stack
      and udp = "\<lparr>Version = 3, Deployment = ''{}''\<rparr>"
      and res = "Some \<lparr>sub = \<lparr>Outputs = Some (example_outputs(''flags'' \<mapsto>
        \<lparr>Value = VArray [VString ''FLAG{two}'', VNumber 7, VString ''FLAG{three}''],
         OSecret = True\<rparr>))\<rparr>\<rparr>"
      and r = "\<lparr>sub = \<lparr>Outputs = Some (example_outputs(''flags'' \<mapsto>
        \<lparr>Value = VArray [VString ''FLAG{two}'', VNumber 7, VString ''FLAG{three}''],
         OSecret = True\<rparr>))\<rparr>\<rparr>"
      and outs = "example_outputs(''flags'' \<mapsto>
        \<lparr>Value = VArray [VString ''FLAG{two}'', VNumber 7, VString ''FLAG{three}''],
         OSecret = True\<rparr>)"
      and coninfo = "\<lparr>Value = VString ''nc 127.0.0.1 31000'', OSecret = False\<rparr>"
      and c = "''nc 127.0.0.1 31000''"
      and f = "\<lparr>Value = VString ''FLAG{one}'', OSecret = True\<rparr>" and s = "''FLAG{one}''"
      and fl = "\<lparr>Value = VArray [VString ''FLAG{two}'', VNumber 7, VString ''FLAG{three}''],
                OSecret = True\<rparr>"
      and ss = "[''FLAG{two}'']" and v = "VNumber 7" and rest = "[VString ''FLAG{three}'']"
      and ist = example_instance]
  by (simp add: example_world_def example_outputs_def)



text \<open>
  Claim C9. When \<open>Export\<close> succeeds, the record it leaves differs from the record it
  was given in the state, the connection information and the flags only: identity,
  challenge, source, the three instants and the additional map are unchanged.
\<close>

theorem Export_frame:
  assumes "Export w stack res ist = Ok ist'"
  shows "Identity ist' = Identity ist \<and> ChallengeID ist' = ChallengeID ist \<and>
         SourceID ist' = SourceID ist \<and> Since ist' = Since ist \<and>
         LastRenew ist' = LastRenew ist \<and> IUntil ist' = IUntil ist \<and>
         IAdditional ist' = IAdditional ist \<and>
         ist' = ist\<lparr>State := State ist', ConnectionInfo := ConnectionInfo ist', Flags := Flags ist'\<rparr>"
  using Export_Ok_D [OF assms] by auto

theorem Export_frame_witness:
  "Export example_world example_stack (Some \<lparr>sub = \<lparr>Outputs = Some example_outputs\<rparr>\<rparr>)
     example_instance =
     Ok (example_instance\<lparr>State := ''{}'', ConnectionInfo := ''nc 127.0.0.1 31000'',
                          Flags := [''FLAG{one}'', ''FLAG{two}'', ''FLAG{three}'']\<rparr>)
   \<and> Identity (example_instance\<lparr>State := ''{}'', ConnectionInfo := ''nc 127.0.0.1 31000'',
                          Flags := [''FLAG{one}'', ''FLAG{two}'', ''FLAG{three}'']\<rparr>) = ''abc''
   \<and> IAdditional (example_instance\<lparr>State := ''{}'', ConnectionInfo := ''nc 127.0.0.1 31000'',
                          Flags := [''FLAG{one}'', ''FLAG{two}'', ''FLAG{three}'']\<rparr>)
       = [(''mode'', ''hard'')]"
proof -
  have ok: "Export example_world example_stack
      (Some \<lparr>sub = \<lparr>Outputs = Some example_outputs\<rparr>\<rparr>) example_instance =
      Ok (example_instance\<lparr>State := ''{}'', ConnectionInfo := ''nc 127.0.0.1 31000'',
                           Flags := [''FLAG{one}'', ''FLAG{two}'', ''FLAG{three}'']\<rparr>)"
    by (simp add: Export_def example_world_def example_outputs_def)
  from Export_frame [OF ok] ok show ?thesis
    by (simp add: example_instance_def)
qed

section \<open>Engine operations: what a passed deadline yields\<close>

lemma example_timeout: "PulumiTimeout example_conf * Second = 5000000000"
  by (simp add: example_conf_def Second_def)

text \<open>
  Claim C1, as the code has it. Let \<open>timeout\<close> be the configured number of seconds as
  a duration (two minutes when that is zero). When the engine call of \<open>Up\<close>, \<open>Preview\<close>
  or \<open>Down\<close> returns an error and the context of the call has passed its deadline, the
  operation returns an \<open>ErrInternal\<close> whose \<open>Sub\<close> is a timed-out message that names
  the timeout and wraps the error of the engine.
\<close>

theorem deadline_gives_ErrInternal:
  assumes "timeout = (if PulumiTimeout conf * Second = 0 then 2 * Minute
                      else PulumiTimeout conf * Second)"
  shows "(pas_Up w (WithTimeout ctx timeout) (pas stack) = (Inl err, Some ContextDeadlineExceeded) \<longrightarrow>
            Up conf w stack ctx =
              Inl (ErrInternal (Errorf ''pulumi operation timed out after %v: %w''
                                  [ArgDuration timeout, ArgError err])))
       \<and> (pas_Preview w (WithTimeout ctx timeout) (pas stack) = (Inl err, Some ContextDeadlineExceeded) \<longrightarrow>
            Preview conf w stack ctx =
              Some (ErrInternal (Errorf ''pulumi preview timed out after %v: %w''
                                   [ArgDuration timeout, ArgError err])))
       \<and> (pas_Destroy w (WithTimeout ctx timeout) (pas stack) = (Inl err, Some ContextDeadlineExceeded) \<longrightarrow>
            Down conf w stack ctx =
              Some (ErrInternal (Errorf ''pulumi destroy timed out after %v: %w''
                                   [ArgDuration timeout, ArgError err])))"
  using assms by (simp add: Up_def Preview_def Down_def Let_def)

theorem deadline_gives_ErrInternal_witness:
  "Up example_conf hanging_world example_stack background =
     Inl (ErrInternal (Errorf ''pulumi operation timed out after %v: %w''
            [ArgDuration 5000000000, ArgError (External ''waiting for LoadBalancer IP'')]))
   \<and> Preview example_conf hanging_world example_stack background =
     Some (ErrInternal (Errorf ''pulumi preview timed out after %v: %w''
            [ArgDuration 5000000000, ArgError (External ''waiting for LoadBalancer IP'')]))
   \<and> Down example_conf hanging_world example_stack background =
     Some (ErrInternal (Errorf ''pulumi destroy timed out after %v: %w''
            [ArgDuration 5000000000, ArgError (External ''waiting for LoadBalancer IP'')]))"
  using deadline_gives_ErrInternal [where timeout = 5000000000 and conf = example_conf
          and w = hanging_world and ctx = background and stack = example_stack
          and err = "External ''waiting for LoadBalancer IP''"]
  by (simp add: example_timeout hanging_world_def example_world_def WithTimeout_def background_def)

text \<open>
  Claim C1 as stated fails: with a timeout of five seconds and an engine that is still
  waiting when the deadline passes, \<open>Up\<close> returns an error whose kind is \<open>ErrInternal\<close>,
  not the deadline kind.
\<close>

theorem deadline_kind_counterexample:
  "snd (pas_Up hanging_world (WithTimeout background 5000000000) (pas example_stack))
     = Some ContextDeadlineExceeded
   \<and> Up example_conf hanging_world example_stack background =
     Inl (ErrInternal (Errorf ''pulumi operation timed out after %v: %w''
            [ArgDuration 5000000000, ArgError (External ''waiting for LoadBalancer IP'')]))
   \<and> kind_of (ErrInternal (Errorf ''pulumi operation timed out after %v: %w''
            [ArgDuration 5000000000, ArgError (External ''waiting for LoadBalancer IP'')]))
     \<noteq> KDeadlineExceeded"
  by (simp add: Up_def Let_def example_timeout hanging_world_def example_world_def
        WithTimeout_def background_def)

text \<open>
  Claim C2, evaluated on the code. With \<open>PulumiTimeout\<close> set to zero and a caller's
  context without a deadline, the three operations still run the engine under a
  deadline of two minutes: an engine that waits for ever is cut off after
  120000000000 nanoseconds.
\<close>

theorem zero_timeout_runs_under_two_minutes:
  "Up (example_conf\<lparr>PulumiTimeout := 0\<rparr>) hanging_world example_stack background =
     Inl (ErrInternal (Errorf ''pulumi operation timed out after %v: %w''
            [ArgDuration 120000000000, ArgError (External ''waiting for LoadBalancer IP'')]))
   \<and> Preview (example_conf\<lparr>PulumiTimeout := 0\<rparr>) hanging_world example_stack background =
     Some (ErrInternal (Errorf ''pulumi preview timed out after %v: %w''
            [ArgDuration 120000000000, ArgError (External ''waiting for LoadBalancer IP'')]))
   \<and> Down (example_conf\<lparr>PulumiTimeout := 0\<rparr>) hanging_world example_stack background =
     Some (ErrInternal (Errorf ''pulumi destroy timed out after %v: %w''
            [ArgDuration 120000000000, ArgError (External ''waiting for LoadBalancer IP'')]))"
  by (simp add: Up_def Preview_def Down_def Let_def example_conf_def Second_def Minute_def
        hanging_world_def example_world_def WithTimeout_def background_def)

section \<open>The example world evaluated\<close>

lemma example_LoadStack:
  "LoadStack example_conf example_world scenario ident =
     Inr (example_stack\<lparr>pas := (pas example_stack)\<lparr>stackName := ''organization/demo/'' @ ident\<rparr>\<rparr>)"
  by (simp add: LoadStack_def example_conf_def example_world_def example_stack_def
        loadPulumiYml_def Clean_def Let_def FullyQualifiedStackName_def)

lemma example_LoadStack_abc:
  "LoadStack example_conf example_world scenario ''abc'' = Inr example_stack"
  by (simp add: example_LoadStack) (simp add: example_stack_def)

lemma example_NewStack:
  "NewStack example_conf example_world example_challenge ''abc'' =
     Inr (example_stack\<lparr>pas := (pas example_stack)
            \<lparr>config := [''identity'' \<mapsto> \<lparr>CValue = ''abc'', Secret = False\<rparr>,
                        ''challenge_id'' \<mapsto> \<lparr>CValue = ''c1'', Secret = False\<rparr>]\<rparr>\<rparr>)"
  unfolding NewStack_def example_LoadStack_abc
  by (simp add: SetAllConfig_def example_world_def example_challenge_def example_stack_def)

lemma example_NewStack_secrets:
  "NewStack example_conf example_world (example_challenge\<lparr>ImagePullSecrets := [''regcred'']\<rparr>) ''abc'' =
     Inr (example_stack\<lparr>pas := (pas example_stack)
            \<lparr>config := [''identity'' \<mapsto> \<lparr>CValue = ''abc'', Secret = False\<rparr>,
                        ''challenge_id'' \<mapsto> \<lparr>CValue = ''c1'', Secret = False\<rparr>,
                        ''image_pull_secrets'' \<mapsto>
                          \<lparr>CValue = ''['' @ quote ''regcred'' @ '']'', Secret = False\<rparr>]\<rparr>\<rparr>)"
  unfolding NewStack_def example_LoadStack_abc
  by (simp add: SetAllConfig_def example_world_def example_challenge_def example_stack_def)

lemma example_Additional_op:
  "Additional_op example_world stack [(''mode'', ''easy''), (''team'', ''blue'')] [(''mode'', ''hard'')] =
     Inr (stack\<lparr>pas := (pas stack)\<lparr>config := (config (pas stack))
        (''additional'' \<mapsto> \<lparr>CValue = ''{'' @ quote ''mode'' @ '':'' @ quote ''hard'' @ '','' @
                                       quote ''team'' @ '':'' @ quote ''blue'' @ ''}'',
                              Secret = False\<rparr>)\<rparr>\<rparr>)"
  by (simp add: Additional_op_def Additional_cm_def SetConfig_def example_world_def)

section \<open>The merged additional map\<close>

lemma fold_update_map_of:
  "map_of (fold (\<lambda>(k, v) cm. AList.update k v cm) xs cm) = map_of cm ++ map_of (rev xs)"
proof (induction xs arbitrary: cm)
  case Nil
  then show ?case by simp
next
  case (Cons x xs)
  obtain k v where x: "x = (k, v)" by (cases x)
  show ?case
    by (simp add: x Cons.IH update_conv' map_of_append del: fun_upd_apply)
qed

lemma fold_update_distinct:
  "distinct (map fst cm) \<Longrightarrow>
   distinct (map fst (fold (\<lambda>(k, v) cm. AList.update k v cm) xs cm))"
  by (induction xs arbitrary: cm) (auto simp: distinct_update)

lemma map_of_rev_distinct: "distinct (map fst xs) \<Longrightarrow> map_of (rev xs) = map_of xs"
proof (induction xs)
  case Nil
  then show ?case by simp
next
  case (Cons x xs)
  obtain k v where x: "x = (k, v)" by (cases x)
  from Cons.prems have k: "map_of xs k = None"
    by (simp add: x map_of_eq_None_iff)
  have "map_of (rev (x # xs)) = [k \<mapsto> v] ++ map_of xs"
    using Cons by (simp add: x map_of_append)
  also have "\<dots> = map_of (x # xs)"
    using k by (auto simp: x map_add_def fun_eq_iff split: option.splits)
  finally show ?case .
qed

lemma Additional_cm_map_of:
  assumes "distinct (map fst challAdd)" and "distinct (map fst istAdd)"
  shows "map_of (Additional_cm challAdd istAdd) = map_of challAdd ++ map_of istAdd"
  using assms by (simp add: Additional_cm_def fold_update_map_of map_of_rev_distinct)

lemma Additional_cm_distinct: "distinct (map fst (Additional_cm challAdd istAdd))"
  by (simp add: Additional_cm_def fold_update_distinct)

text \<open>
  Claim C4. For a challenge-level map and an instance-level map (each with its keys
  distinct, as the entries of a Go map are), the map that \<open>Additional\<close> encodes has the
  union of their keys as its keys, holds the instance-level value for every key present
  in both (it is the challenge-level map overridden by the instance-level one), and when
  the encoding and the engine succeed its encoding is the value stored under the key
  \<open>additional\<close>.
\<close>

theorem Additional_merge:
  assumes "distinct (map fst challAdd)" and "distinct (map fst istAdd)"
      and "cm = Additional_cm challAdd istAdd"
  shows "distinct (map fst cm)
       \<and> fst ` set cm = fst ` set challAdd \<union> fst ` set istAdd
       \<and> (\<forall>k \<in> fst ` set challAdd \<inter> fst ` set istAdd. map_of cm k = map_of istAdd k)
       \<and> map_of cm = map_of challAdd ++ map_of istAdd
       \<and> (json_Marshal_map w cm = Inr b \<and>
          pas_SetConfig w (pas stack) ''additional'' \<lparr>CValue = b, Secret = False\<rparr> = None \<longrightarrow>
            (\<exists>stack'. Additional_op w stack challAdd istAdd = Inr stack' \<and>
               config (pas stack') ''additional'' = Some \<lparr>CValue = b, Secret = False\<rparr>))"
proof -
  have m: "map_of cm = map_of challAdd ++ map_of istAdd"
    using assms by (simp add: Additional_cm_map_of)
  have d: "distinct (map fst cm)"
    using assms by (simp add: Additional_cm_distinct)
  have "dom (map_of cm) = dom (map_of challAdd) \<union> dom (map_of istAdd)"
    by (auto simp: m)
  then have k: "fst ` set cm = fst ` set challAdd \<union> fst ` set istAdd"
    by (simp add: dom_map_of_conv_image_fst)
  have c: "\<forall>k \<in> fst ` set challAdd \<inter> fst ` set istAdd. map_of cm k = map_of istAdd k"
  proof
    fix k assume "k \<in> fst ` set challAdd \<inter> fst ` set istAdd"
    then have "k \<in> dom (map_of istAdd)" by (simp add: dom_map_of_conv_image_fst)
    then show "map_of cm k = map_of istAdd k"
      by (auto simp: m map_add_def split: option.splits)
  qed
  have s: "json_Marshal_map w cm = Inr b \<and>
          pas_SetConfig w (pas stack) ''additional'' \<lparr>CValue = b, Secret = False\<rparr> = None \<longrightarrow>
            (\<exists>stack'. Additional_op w stack challAdd istAdd = Inr stack' \<and>
               config (pas stack') ''additional'' = Some \<lparr>CValue = b, Secret = False\<rparr>)"
    using assms(3) by (simp add: Additional_op_def SetConfig_def Let_def)
  from d k c m s show ?thesis by blast
qed

theorem Additional_merge_witness:
  "Additional_cm [(''mode'', ''easy''), (''team'', ''blue'')] [(''mode'', ''hard'')] =
     [(''mode'', ''hard''), (''team'', ''blue'')]
   \<and> map_of [(''mode'', ''hard''), (''team'', ''blue'')] ''mode'' = Some ''hard''
   \<and> (\<exists>stack'. Additional_op example_world example_stack
         [(''mode'', ''easy''), (''team'', ''blue'')] [(''mode'', ''hard'')] = Inr stack' \<and>
         config (pas stack') ''additional'' =
           Some \<lparr>CValue = ''{'' @ quote ''mode'' @ '':'' @ quote ''hard'' @ '','' @
                            quote ''team'' @ '':'' @ quote ''blue'' @ ''}'', Secret = False\<rparr>)"
proof -
  have cm: "[(''mode'', ''hard''), (''team'', ''blue'')] =
      Additional_cm [(''mode'', ''easy''), (''team'', ''blue'')] [(''mode'', ''hard'')]"
    by (simp add: Additional_cm_def)
  have d1: "distinct (map fst [(''mode'', ''easy''), (''team'', ''blue'')])" by simp
  have d2: "distinct (map fst [(''mode'', ''hard'')])" by simp
  have j: "json_Marshal_map example_world [(''mode'', ''hard''), (''team'', ''blue'')] =
      Inr (''{'' @ quote ''mode'' @ '':'' @ quote ''hard'' @ '','' @
           quote ''team'' @ '':'' @ quote ''blue'' @ ''}'')"
    by (simp add: example_world_def)
  have c: "pas_SetConfig example_world s k v = None" for s k v
    by (simp add: example_world_def)
  from Additional_merge [OF d1 d2 cm, where w = example_world and stack = example_stack
      and b = "''{'' @ quote ''mode'' @ '':'' @ quote ''hard'' @ '','' @
               quote ''team'' @ '':'' @ quote ''blue'' @ ''}''"] j c cm
  show ?thesis by simp
qed

section \<open>The configuration keys of a scenario\<close>

text \<open>
  Claim C5, as the code has it. When \<open>NewStack\<close> and then \<open>Additional\<close> succeed for a
  challenge record, the stack's configuration holds \<open>identity\<close>, \<open>challenge_id\<close> and the
  encoded \<open>additional\<close> map; it holds the encoded \<open>image_pull_secrets\<close> when the list of
  the record is not empty, and when the list is empty that key is left as the loaded
  stack had it.
\<close>

theorem scenario_config_keys:
  assumes "NewStack conf w fschall ident = Inr stack"
      and "Additional_op w stack (Additional fschall) istAdd = Inr stack'"
  shows "config (pas stack') ''identity'' = Some \<lparr>CValue = ident, Secret = False\<rparr>
       \<and> config (pas stack') ''challenge_id'' = Some \<lparr>CValue = ID fschall, Secret = False\<rparr>
       \<and> (\<exists>b. json_Marshal_map w (Additional_cm (Additional fschall) istAdd) = Inr b \<and>
              config (pas stack') ''additional'' = Some \<lparr>CValue = b, Secret = False\<rparr>)
       \<and> (ImagePullSecrets fschall \<noteq> [] \<longrightarrow>
            (\<exists>b. json_Marshal_strings w (ImagePullSecrets fschall) = Inr b \<and>
               config (pas stack') ''image_pull_secrets'' = Some \<lparr>CValue = b, Secret = False\<rparr>))
       \<and> (ImagePullSecrets fschall = [] \<longrightarrow>
            (\<exists>stack0. LoadStack conf w (Scenario fschall) ident = Inr stack0 \<and>
               config (pas stack') ''image_pull_secrets'' = config (pas stack0) ''image_pull_secrets''))"
  using assms
  unfolding NewStack_def Additional_op_def SetAllConfig_def SetConfig_def Let_def
  by (auto split: sum.splits option.splits if_splits)

theorem scenario_config_keys_witness:
  "config (pas (projr (Additional_op example_world
       (projr (NewStack example_conf example_world
                 (example_challenge\<lparr>ImagePullSecrets := [''regcred'']\<rparr>) ''abc''))
       [(''mode'', ''easy''), (''team'', ''blue'')] [(''mode'', ''hard'')]))) ''identity''
     = Some \<lparr>CValue = ''abc'', Secret = False\<rparr>
   \<and> config (pas (projr (Additional_op example_world
       (projr (NewStack example_conf example_world
                 (example_challenge\<lparr>ImagePullSecrets := [''regcred'']\<rparr>) ''abc''))
       [(''mode'', ''easy''), (''team'', ''blue'')] [(''mode'', ''hard'')]))) ''challenge_id''
     = Some \<lparr>CValue = ''c1'', Secret = False\<rparr>
   \<and> config (pas (projr (Additional_op example_world
       (projr (NewStack example_conf example_world
                 (example_challenge\<lparr>ImagePullSecrets := [''regcred'']\<rparr>) ''abc''))
       [(''mode'', ''easy''), (''team'', ''blue'')] [(''mode'', ''hard'')]))) ''image_pull_secrets''
     = Some \<lparr>CValue = ''['' @ quote ''regcred'' @ '']'', Secret = False\<rparr>"
proof -
  let ?chal = "example_challenge\<lparr>ImagePullSecrets := [''regcred'']\<rparr>"
  let ?s1 = "projr (NewStack example_conf example_world ?chal ''abc'')"
  let ?s2 = "projr (Additional_op example_world ?s1
               [(''mode'', ''easy''), (''team'', ''blue'')] [(''mode'', ''hard'')])"
  have n: "NewStack example_conf example_world ?chal ''abc'' = Inr ?s1"
    by (simp add: example_NewStack_secrets)
  have a: "Additional_op example_world ?s1 (Additional ?chal) [(''mode'', ''hard'')] = Inr ?s2"
    by (simp add: example_Additional_op) (simp add: example_challenge_def example_Additional_op)
  have j: "json_Marshal_strings example_world [''regcred''] = Inr (''['' @ quote ''regcred'' @ '']'')"
    by (simp add: example_world_def)
  have i: "ID ?chal = ''c1''" and l: "ImagePullSecrets ?chal = [''regcred'']"
    by (simp_all add: example_challenge_def)
  from scenario_config_keys [OF n a] show ?thesis
    by (simp add: i l j)
qed

text \<open>
  Claim C5 as stated fails for a challenge record whose list of pull secrets is empty:
  after \<open>NewStack\<close> and \<open>Additional\<close> have both succeeded on a fresh stack, the key
  \<open>image_pull_secrets\<close> is not set.
\<close>

theorem empty_pull_secrets_counterexample:
  "ImagePullSecrets example_challenge = []
   \<and> \<not> isl (NewStack example_conf example_world example_challenge ''abc'')
   \<and> \<not> isl (Additional_op example_world
               (projr (NewStack example_conf example_world example_challenge ''abc''))
               (Additional example_challenge) (IAdditional example_instance))
   \<and> config (pas (projr (Additional_op example_world
               (projr (NewStack example_conf example_world example_challenge ''abc''))
               (Additional example_challenge) (IAdditional example_instance))))
        ''image_pull_secrets'' = None"
  unfolding example_NewStack
  by (simp add: Additional_op_def SetConfig_def Let_def example_world_def example_challenge_def
        example_stack_def)

section \<open>The name of the loaded stack\<close>

lemma loadPulumiYml_read:
  assumes "os_ReadFile w (Join [dir, ''Pulumi.yaml'']) = Inr b \<or>
           isl (os_ReadFile w (Join [dir, ''Pulumi.yaml''])) \<and>
           os_ReadFile w (Join [dir, ''Pulumi.yml'']) = Inr b"
  shows "loadPulumiYml w dir = Inr b"
  using assms by (auto simp: loadPulumiYml_def isl_def simp del: Join.simps)

lemma loadPulumiYml_unread:
  assumes "os_ReadFile w (Join [dir, ''Pulumi.yaml'']) = Inl e1"
      and "os_ReadFile w (Join [dir, ''Pulumi.yml'']) = Inl e2"
  shows "loadPulumiYml w dir = Inl e2"
  using assms by (simp add: loadPulumiYml_def del: Join.simps)

text \<open>
  Claim C8. The project descriptor of a working directory is its file \<open>Pulumi.yaml\<close>,
  or its file \<open>Pulumi.yml\<close> when the former cannot be read. When the scenario
  reference resolves to a working directory whose descriptor declares the project name,
  every stack that \<open>LoadStack\<close> returns for an identity is the one the engine opened or
  created in that directory under the fully qualified name made of \<open>organization\<close>,
  the project name and the identity; and \<open>LoadStack\<close> does return a stack when the
  workspace and the engine accept.
\<close>

theorem LoadStack_stack_name:
  assumes "oci_Load w scenario = Inr dir"
      and "os_ReadFile w (Join [dir, ''Pulumi.yaml'']) = Inr b \<or>
           isl (os_ReadFile w (Join [dir, ''Pulumi.yaml''])) \<and>
           os_ReadFile w (Join [dir, ''Pulumi.yml'']) = Inr b"
      and "yaml_Unmarshal w b = Inr yml"
  shows "(\<forall>stack. LoadStack conf w scenario ident = Inr stack \<longrightarrow>
            stackName (pas stack) = FullyQualifiedStackName ''organization'' (Name yml) ident \<and>
            WorkDir (workspace (pas stack)) = dir \<and>
            EnvVars (workspace (pas stack)) ''CM_PROJECT'' = Some (Name yml) \<and>
            auto_UpsertStack w (FullyQualifiedStackName ''organization'' (Name yml) ident)
              (workspace (pas stack)) = Inr (config (pas stack)))
       \<and> FullyQualifiedStackName ''organization'' (Name yml) ident
            = ''organization/'' @ Name yml @ ''/'' @ ident
       \<and> ((\<forall>env. auto_NewLocalWorkspace w dir env = None) \<and>
          (\<forall>ws. auto_UpsertStack w (FullyQualifiedStackName ''organization'' (Name yml) ident) ws
                  = Inr cfg) \<longrightarrow>
            (\<exists>stack. LoadStack conf w scenario ident = Inr stack))"
proof -
  have l: "loadPulumiYml w dir = Inr b"
    by (rule loadPulumiYml_read [OF assms(2)])
  show ?thesis
    using assms(1) l assms(3) unfolding LoadStack_def Let_def
    by (auto simp: FullyQualifiedStackName_def simp del: Join.simps
        split: option.splits sum.splits)
qed

lemma example_descriptor_paths:
  "Join [''/cache/oci/demo'', ''Pulumi.yaml''] = ''/cache/oci/demo/Pulumi.yaml''"
  "Join [''/cache/oci/demo'', ''Pulumi.yml''] = ''/cache/oci/demo/Pulumi.yml''"
  by (simp_all add: Clean_def)

theorem LoadStack_stack_name_witness:
  "LoadStack example_conf example_world ''registry.local/demo:v1'' ''abc'' = Inr example_stack
   \<and> stackName (pas example_stack) = ''organization/demo/abc''
   \<and> WorkDir (workspace (pas example_stack)) = ''/cache/oci/demo''
   \<and> \<not> isl (LoadStack example_conf yml_world ''registry.local/demo:v1'' ''abc'')
   \<and> stackName (pas (projr (LoadStack example_conf yml_world ''registry.local/demo:v1'' ''abc'')))
       = ''organization/other/abc''"
proof -
  have o: "oci_Load example_world ''registry.local/demo:v1'' = Inr ''/cache/oci/demo''"
    by (simp add: example_world_def)
  have r: "os_ReadFile example_world (Join [''/cache/oci/demo'', ''Pulumi.yaml'']) = Inr ''name: demo'' \<or>
           isl (os_ReadFile example_world (Join [''/cache/oci/demo'', ''Pulumi.yaml''])) \<and>
           os_ReadFile example_world (Join [''/cache/oci/demo'', ''Pulumi.yml'']) = Inr ''name: demo''"
    unfolding example_descriptor_paths by (simp add: example_world_def)
  have y: "yaml_Unmarshal example_world ''name: demo'' = Inr \<lparr>Name = ''demo''\<rparr>"
    by (simp add: example_world_def)
  have 1: "stackName (pas example_stack) = ''organization/demo/abc'' \<and>
           WorkDir (workspace (pas example_stack)) = ''/cache/oci/demo''"
    using LoadStack_stack_name [OF o r y, where conf = example_conf and ident = "''abc''"
         and cfg = Map.empty]
      example_LoadStack_abc [of "''registry.local/demo:v1''"]
    by (simp add: FullyQualifiedStackName_def)
  have o': "oci_Load yml_world ''registry.local/demo:v1'' = Inr ''/cache/oci/demo''"
    by (simp add: yml_world_def example_world_def)
  have r': "os_ReadFile yml_world (Join [''/cache/oci/demo'', ''Pulumi.yaml'']) = Inr ''name: other'' \<or>
           isl (os_ReadFile yml_world (Join [''/cache/oci/demo'', ''Pulumi.yaml''])) \<and>
           os_ReadFile yml_world (Join [''/cache/oci/demo'', ''Pulumi.yml'']) = Inr ''name: other''"
    unfolding example_descriptor_paths by (simp add: yml_world_def)
  have y': "yaml_Unmarshal yml_world ''name: other'' = Inr \<lparr>Name = ''other''\<rparr>"
    by (simp add: yml_world_def)
  have nw: "\<forall>env. auto_NewLocalWorkspace yml_world ''/cache/oci/demo'' env = None"
    by (simp add: yml_world_def example_world_def)
  have us: "\<forall>ws. auto_UpsertStack yml_world
               (FullyQualifiedStackName ''organization'' (Name \<lparr>Name = ''other''\<rparr>) ''abc'') ws
             = Inr Map.empty"
    by (simp add: yml_world_def example_world_def)
  note t = LoadStack_stack_name [OF o' r' y', where conf = example_conf and ident = "''abc''"
         and cfg = Map.empty]
  from t nw us obtain stack where
    s: "LoadStack example_conf yml_world ''registry.local/demo:v1'' ''abc'' = Inr stack"
    by blast
  with t have "stackName (pas stack) = ''organization/other/abc''"
    by (simp add: FullyQualifiedStackName_def)
  with s have 2: "\<not> isl (LoadStack example_conf yml_world ''registry.local/demo:v1'' ''abc'') \<and>
    stackName (pas (projr (LoadStack example_conf yml_world ''registry.local/demo:v1'' ''abc'')))
       = ''organization/other/abc''"
    by simp
  from 1 2 example_LoadStack_abc [of "''registry.local/demo:v1''"] show ?thesis by simp
qed

lemma LoadStack_outcomes:
  assumes "cacheDir = (if Cache conf = []
                       then Join [os_UserHomeDir w, ''.cache'', ''chall-manager'']
                       else Cache conf)"
      and "env = [''PULUMI_CONFIG_PASSPHRASE'' \<mapsto> [], ''CM_PROJECT'' \<mapsto> Name yml,
                  ''GOCACHE'' \<mapsto> Join [cacheDir, ''go-build''],
                  ''GOMODCACHE'' \<mapsto> Join [cacheDir, ''go-mod'']]"
      and "name = FullyQualifiedStackName ''organization'' (Name yml) ident"
      and "rd \<longleftrightarrow> (os_ReadFile w (Join [dir, ''Pulumi.yaml'']) = Inr b \<or>
             isl (os_ReadFile w (Join [dir, ''Pulumi.yaml''])) \<and>
             os_ReadFile w (Join [dir, ''Pulumi.yml'']) = Inr b)"
  shows "(oci_Load w scenario = Inl err \<longrightarrow> LoadStack conf w scenario ident = Inl err)
       \<and> (oci_Load w scenario = Inr dir \<and>
          os_ReadFile w (Join [dir, ''Pulumi.yaml'']) = Inl e1 \<and>
          os_ReadFile w (Join [dir, ''Pulumi.yml'']) = Inl e2 \<longrightarrow>
            LoadStack conf w scenario ident =
              Inl (ErrScenario (Wrapf e2 ''no Pulumi.yaml/Pulumi.yml file'' [])))
       \<and> (oci_Load w scenario = Inr dir \<and> rd \<and> yaml_Unmarshal w b = Inl err \<longrightarrow>
            LoadStack conf w scenario ident =
              Inl (ErrScenario (Wrapf err ''invalid Pulumi YAML content'' [])))
       \<and> (oci_Load w scenario = Inr dir \<and> rd \<and> yaml_Unmarshal w b = Inr yml \<and>
          auto_NewLocalWorkspace w dir env = Some err \<longrightarrow>
            LoadStack conf w scenario ident =
              Inl (ErrInternal (Wrapf err ''new local workspace'' [])))
       \<and> (oci_Load w scenario = Inr dir \<and> rd \<and> yaml_Unmarshal w b = Inr yml \<and>
          auto_NewLocalWorkspace w dir env = None \<and>
          auto_UpsertStack w name \<lparr>WorkDir = dir, EnvVars = env\<rparr> = Inl err \<longrightarrow>
            LoadStack conf w scenario ident =
              Inl (ErrInternal (Wrapf err ''upsert stack %s'' [ArgString name])))"
proof -
  have l: "loadPulumiYml w dir = Inr b" if rd
    using that assms(4) by (intro loadPulumiYml_read) simp
  have u: "loadPulumiYml w dir = Inl e2"
    if "os_ReadFile w (Join [dir, ''Pulumi.yaml'']) = Inl e1"
       "os_ReadFile w (Join [dir, ''Pulumi.yml'']) = Inl e2"
    using that by (rule loadPulumiYml_unread)
  show ?thesis
    using l u unfolding LoadStack_def Let_def assms(1-3)
    by (auto simp del: Join.simps)
qed

section \<open>Validation\<close>

lemma length_hex_EncodeToString: "length (hex_EncodeToString bs) = 2 * length bs"
  by (induction bs) simp_all

lemma length_randName: "length (randName w) = 16"
  by (simp add: randName_def Let_def length_hex_EncodeToString)

lemma hex_digit: "hextable ! unat (drop_bit 4 (v :: 8 word)) \<in> set hextable"
  "hextable ! unat (and v 15) \<in> set hextable"
proof -
  have l: "length hextable = 16" by (simp add: hextable_def)
  have "unat v < 2 ^ LENGTH(8)" by (rule unsigned_less)
  then have "unat v < 256" by simp
  moreover have "unat (drop_bit 4 v) = unat v div 16"
    by (simp add: drop_bit_eq_div unat_div_distrib)
  ultimately have "unat (drop_bit 4 v) < 16" by simp
  then show "hextable ! unat (drop_bit 4 v) \<in> set hextable" using l by simp
  have "and v 15 = take_bit 4 v" by (simp add: take_bit_eq_mask mask_eq_exp_minus_1)
  then have "unat (and v 15) = take_bit 4 (unat v)" by (simp add: unsigned_take_bit_eq)
  moreover have "take_bit 4 (unat v) < 2 ^ 4" by (rule take_bit_nat_less_exp)
  ultimately have "unat (and v 15) < 16" by simp
  then show "hextable ! unat (and v 15) \<in> set hextable" using l by simp
qed

lemma hex_EncodeToString_digits: "set (hex_EncodeToString bs) \<subseteq> set hextable"
  by (induction bs) (simp_all add: hex_digit)


text \<open>
  Claim C6, as the code has it. \<open>Validate\<close> takes as identity the hexadecimal writing
  (sixteen digits) of the eight bytes of its buffer after reading the random source.
  When loading the stack fails, the error of \<open>LoadStack\<close> is returned as it is: the
  error of the OCI manager, an \<open>ErrScenario\<close> when neither descriptor file can be read
  or the descriptor is not valid YAML, an \<open>ErrInternal\<close> when the workspace cannot be
  created or the stack cannot be opened or created. An error of setting the identity or
  the additional map is returned as \<open>ErrInternal\<close>. Otherwise the stack holds the
  identity and the encoded additional map of the challenge, the preview runs on it, and
  \<open>Validate\<close> returns \<open>ErrScenario\<close> with the error of the preview when it fails and no
  error when it succeeds.
\<close>

theorem Validate_outcomes:
  assumes "rand = randName w"
      and "cacheDir = (if Cache conf = []
                       then Join [os_UserHomeDir w, ''.cache'', ''chall-manager'']
                       else Cache conf)"
      and "env = [''PULUMI_CONFIG_PASSPHRASE'' \<mapsto> [], ''CM_PROJECT'' \<mapsto> Name yml,
                  ''GOCACHE'' \<mapsto> Join [cacheDir, ''go-build''],
                  ''GOMODCACHE'' \<mapsto> Join [cacheDir, ''go-mod'']]"
      and "name = FullyQualifiedStackName ''organization'' (Name yml) rand"
  shows "rand = hex_EncodeToString (take 8 (rand_Read w 8 @ replicate 8 0))
       \<and> length rand = 16
       \<and> set rand \<subseteq> set ''0123456789abcdef''
       \<and> (oci_Load w (Scenario fschall) = Inl err \<longrightarrow>
            Validate conf w ctx fschall = Some err)
       \<and> (oci_Load w (Scenario fschall) = Inr dir \<and>
          os_ReadFile w (Join [dir, ''Pulumi.yaml'']) = Inl e1 \<and>
          os_ReadFile w (Join [dir, ''Pulumi.yml'']) = Inl e2 \<longrightarrow>
            Validate conf w ctx fschall =
              Some (ErrScenario (Wrapf e2 ''no Pulumi.yaml/Pulumi.yml file'' [])))
       \<and> (oci_Load w (Scenario fschall) = Inr dir \<and>
          (os_ReadFile w (Join [dir, ''Pulumi.yaml'']) = Inr b \<or>
           isl (os_ReadFile w (Join [dir, ''Pulumi.yaml''])) \<and>
           os_ReadFile w (Join [dir, ''Pulumi.yml'']) = Inr b) \<and>
          yaml_Unmarshal w b = Inl err \<longrightarrow>
            Validate conf w ctx fschall =
              Some (ErrScenario (Wrapf err ''invalid Pulumi YAML content'' [])))
       \<and> (oci_Load w (Scenario fschall) = Inr dir \<and>
          (os_ReadFile w (Join [dir, ''Pulumi.yaml'']) = Inr b \<or>
           isl (os_ReadFile w (Join [dir, ''Pulumi.yaml''])) \<and>
           os_ReadFile w (Join [dir, ''Pulumi.yml'']) = Inr b) \<and>
          yaml_Unmarshal w b = Inr yml \<and>
          auto_NewLocalWorkspace w dir env = Some err \<longrightarrow>
            Validate conf w ctx fschall =
              Some (ErrInternal (Wrapf err ''new local workspace'' [])))
       \<and> (oci_Load w (Scenario fschall) = Inr dir \<and>
          (os_ReadFile w (Join [dir, ''Pulumi.yaml'']) = Inr b \<or>
           isl (os_ReadFile w (Join [dir, ''Pulumi.yaml''])) \<and>
           os_ReadFile w (Join [dir, ''Pulumi.yml'']) = Inr b) \<and>
          yaml_Unmarshal w b = Inr yml \<and>
          auto_NewLocalWorkspace w dir env = None \<and>
          auto_UpsertStack w name \<lparr>WorkDir = dir, EnvVars = env\<rparr> = Inl err \<longrightarrow>
            Validate conf w ctx fschall =
              Some (ErrInternal (Wrapf err ''upsert stack %s'' [ArgString name])))
       \<and> (LoadStack conf w (Scenario fschall) rand = Inr stack \<and>
          SetAllConfig w (pas stack) [''identity'' \<mapsto> \<lparr>CValue = rand, Secret = False\<rparr>] = Inl err \<longrightarrow>
            Validate conf w ctx fschall = Some (ErrInternal err))
       \<and> (LoadStack conf w (Scenario fschall) rand = Inr stack \<and>
          SetAllConfig w (pas stack) [''identity'' \<mapsto> \<lparr>CValue = rand, Secret = False\<rparr>] = Inr p \<and>
          Additional_op w (stack\<lparr>pas := p\<rparr>) (Additional fschall) [] = Inl err \<longrightarrow>
            Validate conf w ctx fschall = Some (ErrInternal err))
       \<and> (LoadStack conf w (Scenario fschall) rand = Inr stack \<and>
          SetAllConfig w (pas stack) [''identity'' \<mapsto> \<lparr>CValue = rand, Secret = False\<rparr>] = Inr p \<and>
          Additional_op w (stack\<lparr>pas := p\<rparr>) (Additional fschall) [] = Inr stack' \<longrightarrow>
            config (pas stack') ''identity'' = Some \<lparr>CValue = rand, Secret = False\<rparr> \<and>
            (\<exists>b. json_Marshal_map w (Additional_cm (Additional fschall) []) = Inr b \<and>
                 config (pas stack') ''additional'' = Some \<lparr>CValue = b, Secret = False\<rparr>) \<and>
            Validate conf w ctx fschall =
              (case fst (pas_Preview w ctx (pas stack')) of
                 Inl err \<Rightarrow> Some (ErrScenario err)
               | Inr u \<Rightarrow> None))"
proof -
  have r1: "rand = hex_EncodeToString (take 8 (rand_Read w 8 @ replicate 8 0))"
    using assms(1) by (simp add: randName_def)
  have r2: "length rand = 16"
    using assms(1) by (simp add: length_randName)
  have r3: "set rand \<subseteq> set ''0123456789abcdef''"
    using hex_EncodeToString_digits [of "take 8 (rand_Read w 8 @ replicate 8 0)"]
    unfolding r1 hextable_def .
  have v: "Validate conf w ctx fschall = Some e"
    if "LoadStack conf w (Scenario fschall) rand = Inl e" for e
    using that assms(1) by (simp add: Validate_def)
  define rd where "rd \<longleftrightarrow> (os_ReadFile w (Join [dir, ''Pulumi.yaml'']) = Inr b \<or>
             isl (os_ReadFile w (Join [dir, ''Pulumi.yaml''])) \<and>
             os_ReadFile w (Join [dir, ''Pulumi.yml'']) = Inr b)"
  note lo = LoadStack_outcomes [OF assms(2) assms(3) assms(4) rd_def,
      where scenario = "Scenario fschall" and err = err and ?e1.0 = e1 and ?e2.0 = e2]
  have l1: "oci_Load w (Scenario fschall) = Inl err \<longrightarrow>
            Validate conf w ctx fschall = Some err"
    using lo v by blast
  have l2: "oci_Load w (Scenario fschall) = Inr dir \<and>
          os_ReadFile w (Join [dir, ''Pulumi.yaml'']) = Inl e1 \<and>
          os_ReadFile w (Join [dir, ''Pulumi.yml'']) = Inl e2 \<longrightarrow>
            Validate conf w ctx fschall =
              Some (ErrScenario (Wrapf e2 ''no Pulumi.yaml/Pulumi.yml file'' []))"
    using lo v by blast
  have l3: "oci_Load w (Scenario fschall) = Inr dir \<and> rd \<and> yaml_Unmarshal w b = Inl err \<longrightarrow>
            Validate conf w ctx fschall =
              Some (ErrScenario (Wrapf err ''invalid Pulumi YAML content'' []))"
    using lo v by blast
  have l4: "oci_Load w (Scenario fschall) = Inr dir \<and> rd \<and> yaml_Unmarshal w b = Inr yml \<and>
          auto_NewLocalWorkspace w dir env = Some err \<longrightarrow>
            Validate conf w ctx fschall =
              Some (ErrInternal (Wrapf err ''new local workspace'' []))"
    using lo v by blast
  have l5: "oci_Load w (Scenario fschall) = Inr dir \<and> rd \<and> yaml_Unmarshal w b = Inr yml \<and>
          auto_NewLocalWorkspace w dir env = None \<and>
          auto_UpsertStack w name \<lparr>WorkDir = dir, EnvVars = env\<rparr> = Inl err \<longrightarrow>
            Validate conf w ctx fschall =
              Some (ErrInternal (Wrapf err ''upsert stack %s'' [ArgString name]))"
    using lo v by blast
  have c1: "LoadStack conf w (Scenario fschall) rand = Inr stack \<and>
          SetAllConfig w (pas stack) [''identity'' \<mapsto> \<lparr>CValue = rand, Secret = False\<rparr>] = Inl err \<longrightarrow>
            Validate conf w ctx fschall = Some (ErrInternal err)"
    using assms(1) unfolding Validate_def Let_def by auto
  have c2: "LoadStack conf w (Scenario fschall) rand = Inr stack \<and>
          SetAllConfig w (pas stack) [''identity'' \<mapsto> \<lparr>CValue = rand, Secret = False\<rparr>] = Inr p \<and>
          Additional_op w (stack\<lparr>pas := p\<rparr>) (Additional fschall) [] = Inl err \<longrightarrow>
            Validate conf w ctx fschall = Some (ErrInternal err)"
    using assms(1) unfolding Validate_def Let_def by auto
  have c3: "LoadStack conf w (Scenario fschall) rand = Inr stack \<and>
          SetAllConfig w (pas stack) [''identity'' \<mapsto> \<lparr>CValue = rand, Secret = False\<rparr>] = Inr p \<and>
          Additional_op w (stack\<lparr>pas := p\<rparr>) (Additional fschall) [] = Inr stack' \<longrightarrow>
            config (pas stack') ''identity'' = Some \<lparr>CValue = rand, Secret = False\<rparr> \<and>
            (\<exists>b. json_Marshal_map w (Additional_cm (Additional fschall) []) = Inr b \<and>
                 config (pas stack') ''additional'' = Some \<lparr>CValue = b, Secret = False\<rparr>) \<and>
            Validate conf w ctx fschall =
              (case fst (pas_Preview w ctx (pas stack')) of
                 Inl err \<Rightarrow> Some (ErrScenario err)
               | Inr u \<Rightarrow> None)"
    using assms(1)
    unfolding Validate_def Let_def
    by (auto simp: Additional_op_def SetAllConfig_def SetConfig_def Let_def
        split: sum.splits option.splits prod.splits)
  show ?thesis
    by (intro conjI) (rule r1 r2 r3 l1 l2 l3 [unfolded rd_def] l4 [unfolded rd_def]
          l5 [unfolded rd_def] c1 c2 c3)+
qed

lemma example_randName: "randName example_world = ''abababababababab''"
  by code_simp

lemma other_worlds_randName:
  "randName unreachable_world = randName example_world"
  "randName undescribed_world = randName example_world"
  "randName malformed_world = randName example_world"
  "randName noworkspace_world = randName example_world"
  "randName noupsert_world = randName example_world"
  "randName locked_world = randName example_world"
  "randName readonly_world = randName example_world"
  "randName failing_preview_world = randName example_world"
  by (simp_all add: randName_def unreachable_world_def undescribed_world_def malformed_world_def
        noworkspace_world_def noupsert_world_def locked_world_def readonly_world_def
        failing_preview_world_def)

lemma other_worlds_LoadStack:
  "LoadStack conf locked_world scenario ident = LoadStack conf example_world scenario ident"
  "LoadStack conf readonly_world scenario ident = LoadStack conf example_world scenario ident"
  "LoadStack conf failing_preview_world scenario ident = LoadStack conf example_world scenario ident"
  by (simp_all add: LoadStack_def loadPulumiYml_def locked_world_def readonly_world_def
        failing_preview_world_def Let_def del: Join.simps cong: sum.case_cong option.case_cong)

text \<open>
  Claim C6 as stated fails when the project descriptor of the scenario is not valid
  YAML: loading the stack fails and \<open>Validate\<close> returns that error, which is an
  \<open>ErrScenario\<close> and not an \<open>ErrInternal\<close>, although no preview has failed (the preview
  of this world succeeds on every stack and is not even reached).
\<close>

theorem malformed_descriptor_counterexample:
  "LoadStack example_conf malformed_world (Scenario example_challenge)
       (randName malformed_world) =
     Inl (ErrScenario (Wrapf (External ''yaml: did not find expected key'')
            ''invalid Pulumi YAML content'' []))
   \<and> Validate example_conf malformed_world background example_challenge =
     Some (ErrScenario (Wrapf (External ''yaml: did not find expected key'')
            ''invalid Pulumi YAML content'' []))
   \<and> kind_of (ErrScenario (Wrapf (External ''yaml: did not find expected key'')
            ''invalid Pulumi YAML content'' [])) \<noteq> KInternal
   \<and> fst (pas_Preview malformed_world background (pas example_stack)) = Inr ()"
proof -
  have l: "LoadStack example_conf malformed_world scenario ident =
     Inl (ErrScenario (Wrapf (External ''yaml: did not find expected key'')
            ''invalid Pulumi YAML content'' []))" for scenario ident
    by (simp add: LoadStack_def loadPulumiYml_def malformed_world_def example_world_def Clean_def)
  show ?thesis
    by (simp add: Validate_def l) (simp add: malformed_world_def example_world_def)
qed

theorem Validate_outcomes_witness:
  "randName example_world = ''abababababababab''
   \<and> Validate example_conf unreachable_world background example_challenge =
     Some (External ''registry unreachable'')
   \<and> Validate example_conf undescribed_world background example_challenge =
     Some (ErrScenario (Wrapf (External ''no such file or directory'')
            ''no Pulumi.yaml/Pulumi.yml file'' []))
   \<and> Validate example_conf malformed_world background example_challenge =
     Some (ErrScenario (Wrapf (External ''yaml: did not find expected key'')
            ''invalid Pulumi YAML content'' []))
   \<and> Validate example_conf noworkspace_world background example_challenge =
     Some (ErrInternal (Wrapf (External ''pulumi not installed'') ''new local workspace'' []))
   \<and> Validate example_conf noupsert_world background example_challenge =
     Some (ErrInternal (Wrapf (External ''backend unavailable'') ''upsert stack %s''
            [ArgString ''organization/demo/abababababababab'']))
   \<and> Validate example_conf locked_world background example_challenge =
     Some (ErrInternal (External ''config is locked''))
   \<and> Validate example_conf readonly_world background example_challenge =
     Some (ErrInternal (External ''config is read-only''))
   \<and> Validate example_conf example_world background example_challenge = None
   \<and> Validate example_conf failing_preview_world background example_challenge =
     Some (ErrScenario (External ''program does not compile''))"
proof -
  let ?r = "randName example_world"
  let ?L = "example_stack\<lparr>pas := (pas example_stack)\<lparr>stackName := ''organization/demo/'' @ ?r\<rparr>\<rparr>"
  let ?id = "[''identity'' \<mapsto> \<lparr>CValue = ?r, Secret = False\<rparr>]"
  let ?p = "(pas ?L)\<lparr>config := config (pas ?L) ++ ?id\<rparr>"
  note paths = example_descriptor_paths
  have 1: "Validate example_conf unreachable_world background example_challenge =
     Some (External ''registry unreachable'')"
    using Validate_outcomes [OF refl refl refl refl, where conf = example_conf and fschall = example_challenge
        and ctx = background and w = unreachable_world and err = "External ''registry unreachable''",
        THEN conjunct2, THEN conjunct2, THEN conjunct2, THEN conjunct1]
    by (simp add: unreachable_world_def)
  have 2: "Validate example_conf undescribed_world background example_challenge =
     Some (ErrScenario (Wrapf (External ''no such file or directory'')
            ''no Pulumi.yaml/Pulumi.yml file'' []))"
    using Validate_outcomes [OF refl refl refl refl, where conf = example_conf and fschall = example_challenge
        and ctx = background and w = undescribed_world and dir = "''/cache/oci/demo''"
        and ?e1.0 = "External ''no such file or directory''" and ?e2.0 = "External ''no such file or directory''",
        THEN conjunct2, THEN conjunct2, THEN conjunct2, THEN conjunct2, THEN conjunct1]
    by (simp add: undescribed_world_def example_world_def del: Join.simps)
  have 3: "Validate example_conf malformed_world background example_challenge =
     Some (ErrScenario (Wrapf (External ''yaml: did not find expected key'')
            ''invalid Pulumi YAML content'' []))"
    using Validate_outcomes [OF refl refl refl refl, where conf = example_conf and fschall = example_challenge
        and ctx = background and w = malformed_world and dir = "''/cache/oci/demo''" and b = "''name: demo''"
        and err = "External ''yaml: did not find expected key''",
        THEN conjunct2, THEN conjunct2, THEN conjunct2, THEN conjunct2, THEN conjunct2, THEN conjunct1]
    by (simp add: malformed_world_def example_world_def paths del: Join.simps)
  have 4: "Validate example_conf noworkspace_world background example_challenge =
     Some (ErrInternal (Wrapf (External ''pulumi not installed'') ''new local workspace'' []))"
    using Validate_outcomes [OF refl refl refl refl, where conf = example_conf and fschall = example_challenge
        and ctx = background and w = noworkspace_world and dir = "''/cache/oci/demo''" and b = "''name: demo''" and yml = "\<lparr>Name = ''demo''\<rparr>"
        and err = "External ''pulumi not installed''",
        THEN conjunct2, THEN conjunct2, THEN conjunct2, THEN conjunct2, THEN conjunct2, THEN conjunct2, THEN conjunct1]
    by (simp add: noworkspace_world_def example_world_def paths del: Join.simps)
  have 5: "Validate example_conf noupsert_world background example_challenge =
     Some (ErrInternal (Wrapf (External ''backend unavailable'') ''upsert stack %s''
            [ArgString ''organization/demo/abababababababab'']))"
    using Validate_outcomes [OF refl refl refl refl, where conf = example_conf and fschall = example_challenge
        and ctx = background and w = noupsert_world and dir = "''/cache/oci/demo''" and b = "''name: demo''" and yml = "\<lparr>Name = ''demo''\<rparr>"
        and err = "External ''backend unavailable''",
        THEN conjunct2, THEN conjunct2, THEN conjunct2, THEN conjunct2, THEN conjunct2, THEN conjunct2, THEN conjunct2, THEN conjunct1]
    by (simp add: other_worlds_randName example_randName FullyQualifiedStackName_def paths
          del: Join.simps)
       (simp add: noupsert_world_def example_world_def)
  have 6: "Validate example_conf locked_world background example_challenge =
     Some (ErrInternal (External ''config is locked''))"
  proof -
    have s: "SetAllConfig locked_world (pas ?L) ?id = Inl (External ''config is locked'')"
      by (simp add: SetAllConfig_def locked_world_def)
    from Validate_outcomes [OF refl refl refl refl, where conf = example_conf and fschall = example_challenge
        and ctx = background and w = locked_world and stack = ?L and err = "External ''config is locked''",
        THEN conjunct2, THEN conjunct2, THEN conjunct2, THEN conjunct2, THEN conjunct2, THEN conjunct2, THEN conjunct2, THEN conjunct2, THEN conjunct1] s
    show ?thesis
      by (simp add: other_worlds_randName other_worlds_LoadStack example_LoadStack)
  qed
  have 7: "Validate example_conf readonly_world background example_challenge =
     Some (ErrInternal (External ''config is read-only''))"
  proof -
    have s: "SetAllConfig readonly_world (pas ?L) ?id = Inr ?p"
      by (simp add: SetAllConfig_def readonly_world_def example_world_def)
    have a: "Additional_op readonly_world (?L\<lparr>pas := ?p\<rparr>) (Additional example_challenge) [] =
        Inl (External ''config is read-only'')"
      by (simp add: Additional_op_def SetConfig_def readonly_world_def example_world_def)
    from Validate_outcomes [OF refl refl refl refl, where conf = example_conf and fschall = example_challenge
        and ctx = background and w = readonly_world and stack = ?L and p = ?p
        and err = "External ''config is read-only''",
        THEN conjunct2, THEN conjunct2, THEN conjunct2, THEN conjunct2, THEN conjunct2, THEN conjunct2, THEN conjunct2, THEN conjunct2, THEN conjunct2, THEN conjunct1] s a
    show ?thesis
      by (simp add: other_worlds_randName other_worlds_LoadStack example_LoadStack)
  qed
  have 8: "Validate example_conf example_world background example_challenge = None"
  proof -
    have s: "SetAllConfig example_world (pas ?L) ?id = Inr ?p"
      by (simp add: SetAllConfig_def example_world_def)
    have a: "Additional_op example_world (?L\<lparr>pas := ?p\<rparr>) (Additional example_challenge) [] =
        Inr (projr (Additional_op example_world (?L\<lparr>pas := ?p\<rparr>) (Additional example_challenge) []))"
      by (simp add: Additional_op_def SetConfig_def example_world_def)
    have pv: "fst (pas_Preview example_world c t) = Inr ()" for c t
      by (simp add: example_world_def)
    from Validate_outcomes [OF refl refl refl refl, where conf = example_conf and fschall = example_challenge
        and ctx = background and w = example_world and stack = ?L and p = ?p
        and stack' = "projr (Additional_op example_world (?L\<lparr>pas := ?p\<rparr>) (Additional example_challenge) [])",
        THEN conjunct2, THEN conjunct2, THEN conjunct2, THEN conjunct2, THEN conjunct2, THEN conjunct2, THEN conjunct2, THEN conjunct2, THEN conjunct2, THEN conjunct2] s a
    show ?thesis
      by (simp add: example_LoadStack pv)
  qed
  have 9: "Validate example_conf failing_preview_world background example_challenge =
     Some (ErrScenario (External ''program does not compile''))"
  proof -
    have s: "SetAllConfig failing_preview_world (pas ?L) ?id = Inr ?p"
      by (simp add: SetAllConfig_def failing_preview_world_def example_world_def)
    have a: "Additional_op failing_preview_world (?L\<lparr>pas := ?p\<rparr>) (Additional example_challenge) [] =
        Inr (projr (Additional_op failing_preview_world (?L\<lparr>pas := ?p\<rparr>) (Additional example_challenge) []))"
      by (simp add: Additional_op_def SetConfig_def failing_preview_world_def example_world_def)
    have pv: "fst (pas_Preview failing_preview_world c t) = Inl (External ''program does not compile'')" for c t
      by (simp add: failing_preview_world_def)
    from Validate_outcomes [OF refl refl refl refl, where conf = example_conf and fschall = example_challenge
        and ctx = background and w = failing_preview_world and stack = ?L and p = ?p
        and stack' = "projr (Additional_op failing_preview_world (?L\<lparr>pas := ?p\<rparr>) (Additional example_challenge) [])",
        THEN conjunct2, THEN conjunct2, THEN conjunct2, THEN conjunct2, THEN conjunct2, THEN conjunct2, THEN conjunct2, THEN conjunct2, THEN conjunct2, THEN conjunct2] s a
    show ?thesis
      by (simp add: other_worlds_randName other_worlds_LoadStack example_LoadStack pv)
  qed
  from example_randName 1 2 3 4 5 6 7 8 9 show ?thesis by simp
qed

section \<open>Paths: elements, cleaning and containment\<close>

lemma split_sep_ne: "split_sep s \<noteq> []"
  by (induction s) (auto split: list.splits)

lemma split_sep_Cons:
  "c \<noteq> CHR ''/'' \<Longrightarrow> split_sep (c # cs) = (c # hd (split_sep cs)) # tl (split_sep cs)"
  using split_sep_ne [of cs] by (cases "split_sep cs") auto

lemma split_sep_slash: "split_sep (CHR ''/'' # cs) = [] # split_sep cs"
  by simp

lemma split_sep_append: "split_sep (a @ CHR ''/'' # b) = split_sep a @ split_sep b"
proof (induction a)
  case Nil
  then show ?case by simp
next
  case (Cons c a)
  show ?case
  proof (cases "c = CHR ''/''")
    case True
    then show ?thesis using Cons by simp
  next
    case False
    have "split_sep ((c # a) @ CHR ''/'' # b) =
          (c # hd (split_sep a @ split_sep b)) # tl (split_sep a @ split_sep b)"
      using Cons split_sep_Cons [OF False, of "a @ CHR ''/'' # b"] by simp
    also have "\<dots> = ((c # hd (split_sep a)) # tl (split_sep a)) @ split_sep b"
      using split_sep_ne [of a] by (cases "split_sep a") auto
    also have "\<dots> = split_sep (c # a) @ split_sep b"
      using split_sep_Cons [OF False, of a] by simp
    finally show ?thesis .
  qed
qed

lemma join_split: "join_sep (split_sep s) = s"
proof (induction s)
  case Nil
  then show ?case by simp
next
  case (Cons c s)
  obtain e es where es: "split_sep s = e # es"
    using split_sep_ne [of s] by (cases "split_sep s") auto
  show ?case
  proof (cases "c = CHR ''/''")
    case True
    then show ?thesis using Cons es by simp
  next
    case False
    then show ?thesis using Cons es by (cases es) auto
  qed
qed

lemma join_sep_append:
  "xs \<noteq> [] \<Longrightarrow> ys \<noteq> [] \<Longrightarrow> join_sep (xs @ ys) = join_sep xs @ ''/'' @ join_sep ys"
proof (induction xs rule: join_sep.induct)
  case 1
  then show ?case by simp
next
  case (2 e)
  then show ?case by (cases ys) auto
next
  case (3 e e' es)
  then show ?case by simp
qed

lemma prefix_slash_iff:
  "prefix (d @ ''/'') p \<longleftrightarrow> strict_prefix (split_sep d) (split_sep p)"
proof
  assume "prefix (d @ ''/'') p"
  then obtain r where p: "p = d @ CHR ''/'' # r" by (auto simp: prefix_def)
  have "split_sep p = split_sep d @ split_sep r"
    unfolding p by (rule split_sep_append)
  then show "strict_prefix (split_sep d) (split_sep p)"
    using split_sep_ne [of r] by (auto simp: strict_prefix_def)
next
  assume "strict_prefix (split_sep d) (split_sep p)"
  then obtain z zs where z: "split_sep p = split_sep d @ z # zs"
    by (auto simp: strict_prefix_def prefix_def neq_Nil_conv)
  have "p = join_sep (split_sep d @ z # zs)"
    using join_split [of p] z by simp
  also have "\<dots> = join_sep (split_sep d) @ ''/'' @ join_sep (z # zs)"
    using split_sep_ne [of d] by (simp add: join_sep_append)
  finally have "p = (d @ ''/'') @ join_sep (z # zs)"
    by (simp add: join_split)
  then show "prefix (d @ ''/'') p"
    by (metis prefixI)
qed

lemma split_sep_noslash: "e \<in> set (split_sep s) \<Longrightarrow> CHR ''/'' \<notin> set e"
proof (induction s arbitrary: e)
  case Nil
  then show ?case by simp
next
  case (Cons c s)
  obtain x xs where xs: "split_sep s = x # xs"
    using split_sep_ne [of s] by (cases "split_sep s") auto
  from Cons xs show ?case
    by (cases "c = CHR ''/''") auto
qed

lemma split_sep_id: "CHR ''/'' \<notin> set e \<Longrightarrow> split_sep e = [e]"
  by (induction e) auto

lemma split_join:
  "xs \<noteq> [] \<Longrightarrow> \<forall>e\<in>set xs. CHR ''/'' \<notin> set e \<Longrightarrow> split_sep (join_sep xs) = xs"
proof (induction xs rule: join_sep.induct)
  case 1
  then show ?case by simp
next
  case (2 e)
  then show ?case by (simp add: split_sep_id)
next
  case (3 e e' es)
  have "split_sep (join_sep (e # e' # es)) = split_sep e @ split_sep (join_sep (e' # es))"
    by (simp only: join_sep.simps append_Cons append_Nil split_sep_append)
  then show ?case using 3 by (simp add: split_sep_id)
qed

lemma clean_elems_noslash:
  "\<forall>e\<in>set es. CHR ''/'' \<notin> set e \<Longrightarrow> \<forall>e\<in>set out. CHR ''/'' \<notin> set e \<Longrightarrow>
   \<forall>e\<in>set (clean_elems r es out). CHR ''/'' \<notin> set e"
proof (induction es arbitrary: out)
  case Nil
  then show ?case by simp
next
  case (Cons a es)
  have b: "\<forall>e\<in>set (butlast out). CHR ''/'' \<notin> set e"
    using Cons.prems(2) by (auto dest: in_set_butlastD)
  have d: "\<forall>e\<in>set (out @ [''..'']). CHR ''/'' \<notin> set e"
    using Cons.prems(2) by auto
  have a: "\<forall>e\<in>set (out @ [a]). CHR ''/'' \<notin> set e"
    using Cons.prems by auto
  from Cons.prems(1) have es: "\<forall>e\<in>set es. CHR ''/'' \<notin> set e" by simp
  show ?case
    using Cons.IH [OF es b] Cons.IH [OF es d] Cons.IH [OF es a] Cons.IH [OF es Cons.prems(2)]
    by (simp del: set_append)
qed

lemma clean_elems_rooted_nodotdot:
  "''..'' \<notin> set out \<Longrightarrow> ''..'' \<notin> set (clean_elems True es out)"
proof (induction es arbitrary: out)
  case Nil
  then show ?case by simp
next
  case (Cons a es)
  have b: "''..'' \<notin> set (butlast out)"
    using Cons.prems by (auto dest: in_set_butlastD)
  have a: "a \<noteq> ''..'' \<Longrightarrow> ''..'' \<notin> set (out @ [a])"
    using Cons.prems by auto
  show ?case
    using Cons.IH [OF b] Cons.IH [OF Cons.prems] Cons.IH [OF a]
    by (simp del: set_append)
qed

lemma Clean_rooted_nodotdot:
  assumes "p \<noteq> []" and "hd p = CHR ''/''"
  shows "''..'' \<notin> set (split_sep (Clean p))"
proof -
  let ?out = "clean_elems True (split_sep p) []"
  have c: "Clean p = CHR ''/'' # join_sep ?out"
    using assms by (simp add: Clean_def)
  have ns: "\<forall>e\<in>set ?out. CHR ''/'' \<notin> set e"
    by (rule clean_elems_noslash) (auto dest: split_sep_noslash)
  have nd: "''..'' \<notin> set ?out"
    by (rule clean_elems_rooted_nodotdot) simp
  show ?thesis
  proof (cases "?out = []")
    case True
    then show ?thesis by (simp add: c)
  next
    case False
    then have "split_sep (join_sep ?out) = ?out"
      using ns by (rule split_join)
    then show ?thesis using nd by (simp add: c)
  qed
qed

lemma Join_absolute:
  assumes "d \<noteq> []" and "hd d = CHR ''/''"
  shows "Join [d, n] = Clean (d @ CHR ''/'' # n)"
    and "''..'' \<notin> set (split_sep (Join [d, n]))"
proof -
  show j: "Join [d, n] = Clean (d @ CHR ''/'' # n)"
    using assms by simp
  have "hd (d @ CHR ''/'' # n) = CHR ''/''" using assms by simp
  then show "''..'' \<notin> set (split_sep (Join [d, n]))"
    unfolding j using assms(1) by (intro Clean_rooted_nodotdot) simp_all
qed

lemma check_iff_inside:
  assumes "d \<noteq> []" and "hd d = CHR ''/''"
  shows "HasPrefix (Join [d, n]) (Clean d @ ''/'') \<longleftrightarrow> inside (Clean d) (Join [d, n])"
  using Join_absolute(2) [OF assms, of n]
  by (simp add: HasPrefix_def inside_def prefix_slash_iff)

lemma clean_elems_rooted_real:
  "\<forall>e\<in>set es. CHR ''/'' \<notin> set e \<Longrightarrow> \<forall>e\<in>set out. real_elem e \<Longrightarrow>
   \<forall>e\<in>set (clean_elems True es out). real_elem e"
proof (induction es arbitrary: out)
  case Nil
  then show ?case by simp
next
  case (Cons a es)
  from Cons.prems(1) have es: "\<forall>e\<in>set es. CHR ''/'' \<notin> set e" by simp
  have b: "\<forall>e\<in>set (butlast out). real_elem e"
    using Cons.prems(2) by (auto dest: in_set_butlastD)
  have a: "a \<noteq> [] \<Longrightarrow> a \<noteq> ''.'' \<Longrightarrow> a \<noteq> ''..'' \<Longrightarrow> \<forall>e\<in>set (out @ [a]). real_elem e"
    using Cons.prems by (auto simp: real_elem_def)
  show ?case
    using Cons.IH [OF es b] Cons.IH [OF es Cons.prems(2)] Cons.IH [OF es a]
    by (simp del: set_append)
qed

lemma clean_elems_real_id:
  "\<forall>e\<in>set es. real_elem e \<or> e = [] \<Longrightarrow> clean_elems r es out = out @ filter (\<lambda>e. e \<noteq> []) es"
  by (induction es arbitrary: out) (auto simp: real_elem_def)

lemma Clean_rooted:
  assumes "p \<noteq> []" and "hd p = CHR ''/''"
  shows "Clean p = CHR ''/'' # join_sep (clean_elems True (split_sep p) [])"
    and "\<forall>e\<in>set (clean_elems True (split_sep p) []). real_elem e"
proof -
  show "Clean p = CHR ''/'' # join_sep (clean_elems True (split_sep p) [])"
    using assms by (simp add: Clean_def)
  show "\<forall>e\<in>set (clean_elems True (split_sep p) []). real_elem e"
    by (rule clean_elems_rooted_real) (auto dest: split_sep_noslash)
qed

lemma split_rooted_join:
  assumes "\<forall>e\<in>set out. real_elem e"
  shows "split_sep (CHR ''/'' # join_sep out) = [] # (if out = [] then [[]] else out)"
  using assms by (auto simp: split_join real_elem_def)

lemma Dir_rooted_join:
  assumes "\<forall>e\<in>set (b @ [l]). real_elem e"
  shows "Dir (CHR ''/'' # join_sep (b @ [l])) = CHR ''/'' # join_sep b"
proof -
  have l: "CHR ''/'' \<notin> set l" using assms by (simp add: real_elem_def)
  have rb: "\<forall>e\<in>set b. real_elem e" using assms by simp
  let ?t = "rev (dropWhile (\<lambda>c. c \<noteq> CHR ''/'') (rev (CHR ''/'' # join_sep (b @ [l]))))"
  have t: "?t = (if b = [] then ''/'' else CHR ''/'' # join_sep b @ ''/'')"
  proof (cases "b = []")
    case True
    have "dropWhile (\<lambda>c. c \<noteq> CHR ''/'') (rev l @ ''/'') = ''/''"
      using l by (subst dropWhile_append2) auto
    then show ?thesis using True by simp
  next
    case False
    have "dropWhile (\<lambda>c. c \<noteq> CHR ''/'') (rev l @ CHR ''/'' # rev (join_sep b) @ ''/'')
            = CHR ''/'' # rev (join_sep b) @ ''/''"
      using l by (subst dropWhile_append2) auto
    then show ?thesis using False by (simp add: join_sep_append)
  qed
  have s: "split_sep ?t = [] # b @ [[]]"
  proof (cases "b = []")
    case True
    then show ?thesis unfolding t by simp
  next
    case False
    have "split_sep (join_sep b @ ''/'') = split_sep (join_sep b) @ split_sep []"
      using split_sep_append [of "join_sep b" "[]"] by simp
    also have "\<dots> = b @ [[]]"
      using rb False by (simp add: split_join real_elem_def)
    finally show ?thesis unfolding t using False by simp
  qed
  have c: "clean_elems True ([] # b @ [[]]) [] = b"
  proof -
    have "\<forall>e\<in>set ([] # b @ [[]]). real_elem e \<or> e = []" using rb by auto
    from clean_elems_real_id [OF this, of True "[]"] rb
    show ?thesis by (auto simp: real_elem_def filter_id_conv)
  qed
  have "?t \<noteq> []" "hd ?t = CHR ''/''" unfolding t by simp_all
  then have "Clean ?t = CHR ''/'' # join_sep (clean_elems True (split_sep ?t) [])"
    by (rule Clean_rooted(1))
  then show ?thesis
    unfolding Dir_def by (simp only: s c)
qed

lemma Dir_inside:
  assumes d: "d \<noteq> []" "hd d = CHR ''/''"
      and i: "inside (Clean d) (Join [d, n])"
  shows "inside (Clean d) (Dir (Join [d, n])) \<or> Dir (Join [d, n]) = Clean d"
proof -
  define q where "q = Join [d, n]"
  define D where "D = Clean d"
  define out where "out = clean_elems True (split_sep (d @ CHR ''/'' # n)) []"
  define outD where "outD = clean_elems True (split_sep d) []"
  have p: "d @ CHR ''/'' # n \<noteq> []" "hd (d @ CHR ''/'' # n) = CHR ''/''" using d by simp_all
  have q: "q = CHR ''/'' # join_sep out"
    unfolding q_def out_def using Join_absolute(1) [OF d] Clean_rooted(1) [OF p] by simp
  have ro: "\<forall>e\<in>set out. real_elem e"
    unfolding out_def by (rule Clean_rooted(2) [OF p])
  have D: "D = CHR ''/'' # join_sep outD"
    unfolding D_def outD_def by (rule Clean_rooted(1) [OF d])
  have rD: "\<forall>e\<in>set outD. real_elem e"
    unfolding outD_def by (rule Clean_rooted(2) [OF d])
  have sq: "split_sep q = [] # (if out = [] then [[]] else out)"
    unfolding q by (rule split_rooted_join [OF ro])
  have sD: "split_sep D = [] # (if outD = [] then [[]] else outD)"
    unfolding D by (rule split_rooted_join [OF rD])
  from i have sp: "strict_prefix (split_sep D) (split_sep q)"
    by (simp add: inside_def q_def D_def)
  have hd_out: "out \<noteq> [] \<Longrightarrow> hd out \<noteq> []"
    using ro by (cases out) (auto simp: real_elem_def)
  have hd_outD: "outD \<noteq> [] \<Longrightarrow> hd outD \<noteq> []"
    using rD by (cases outD) (auto simp: real_elem_def)
  have oD: "outD \<noteq> []"
  proof
    assume e: "outD = []"
    show False
    proof (cases "out = []")
      case True
      with sp e show False by (simp add: sq sD)
    next
      case False
      with sp e hd_out show False by (cases out) (auto simp: sq sD)
    qed
  qed
  have o: "out \<noteq> []"
  proof
    assume e: "out = []"
    with sp oD hd_outD show False by (cases outD) (auto simp: sq sD)
  qed
  from sp o oD have spo: "strict_prefix outD out" by (simp add: sq sD)
  obtain b l where bl: "out = b @ [l]" using o by (cases out rule: rev_cases) auto
  have dir: "Dir q = CHR ''/'' # join_sep b"
    unfolding q bl using ro [unfolded bl] by (rule Dir_rooted_join)
  have rb: "\<forall>e\<in>set b. real_elem e" using ro bl by simp
  from spo bl have pb: "prefix outD b" by (auto simp: strict_prefix_def prefix_snoc)
  have "inside D (Dir q) \<or> Dir q = D"
  proof (cases "outD = b")
    case True
    then show ?thesis by (simp add: dir D)
  next
    case False
    with pb have "strict_prefix outD b" by (simp add: strict_prefix_def)
    moreover have "b \<noteq> []" using pb oD by auto
    moreover have "''..'' \<notin> set b" using rb by (auto simp: real_elem_def)
    moreover have "split_sep (Dir q) = [] # b"
      unfolding dir using split_rooted_join [OF rb] \<open>b \<noteq> []\<close> by simp
    ultimately have "inside D (Dir q)"
      using oD by (simp add: inside_def sD)
    then show ?thesis ..
  qed
  then show ?thesis by (simp only: q_def D_def)
qed

section \<open>Extraction of the archive\<close>

lemma extract_entries_safe:
  assumes d: "d \<noteq> []" "hd d = CHR ''/''"
  shows "extract_entries h d files fs = (r, fs') \<Longrightarrow> list_all (safe_effect (Clean d)) fs \<Longrightarrow>
         list_all (safe_effect (Clean d)) fs'"
proof (induction files arbitrary: fs)
  case Nil
  then show ?case by simp
next
  case (Cons entry files)
  define path where "path = Join [d, FName entry]"
  show ?case
  proof (cases "HasPrefix path (Clean d @ ''/'')")
    case False
    with Cons.prems show ?thesis by (simp add: path_def del: Join.simps)
  next
    case True
    then have ins: "inside (Clean d) path"
      unfolding path_def by (simp only: check_iff_inside [OF d])
    then have dir: "inside (Clean d) (Dir path) \<or> Dir path = Clean d"
      unfolding path_def by (rule Dir_inside [OF d])
    have step: "list_all (safe_effect (Clean d)) (fs @ es)"
      if "list_all (safe_effect (Clean d)) es" for es
      using Cons.prems(2) that by simp
    from Cons.prems(1) True ins dir Cons.prems(2) show ?thesis
      unfolding extract_entries.simps path_def [symmetric] Let_def
      by (auto split: if_splits option.splits prod.splits dest!: Cons.IH)
  qed
qed


lemma extract_entries_None:
  "extract_entries h d files fs = (None, fs') \<Longrightarrow>
   \<forall>f\<in>set files. HasPrefix (Join [d, FName f]) (Clean d @ ''/'')"
proof (induction files arbitrary: fs)
  case Nil
  then show ?case by simp
next
  case (Cons entry files)
  from Cons.prems show ?case
    unfolding extract_entries.simps Let_def
    by (auto simp del: Join.simps split: if_splits option.splits prod.splits dest!: Cons.IH)
qed

lemma extract_entries_first_bad:
  assumes "\<forall>fs p. os_MkdirAll h fs p = None" and "\<forall>fs p. os_OpenFile h fs p = None"
  shows "\<forall>f\<in>set pre. FOpen f = None \<and> snd (FCopy f) = None \<Longrightarrow>
         \<forall>f\<in>set pre. HasPrefix (Join [d, FName f]) (Clean d @ ''/'') \<Longrightarrow>
         \<not> HasPrefix (Join [d, FName entry]) (Clean d @ ''/'') \<Longrightarrow>
         fst (extract_entries h d (pre @ entry # post) fs) =
           Some (Status InvalidArgument ''invalid file path in ZIP: %s'' [ArgString (FName entry)])"
proof (induction pre arbitrary: fs)
  case Nil
  then show ?case by (simp del: Join.simps)
next
  case (Cons a pre)
  from Cons.prems have a: "HasPrefix (Join [d, FName a]) (Clean d @ ''/'')"
    and o: "FOpen a = None" and c: "snd (FCopy a) = None" by simp_all
  from Cons.prems have
    ih: "fst (extract_entries h d (pre @ entry # post) fs') =
           Some (Status InvalidArgument ''invalid file path in ZIP: %s'' [ArgString (FName entry)])"
    for fs'
    by (intro Cons.IH) simp_all
  obtain written where w: "FCopy a = (written, None)"
    using c by (cases "FCopy a") auto
  show ?case
    using a o w assms ih
    by (simp add: Let_def del: Join.simps)
qed

text \<open>
  Claim C10. Let the temporary directory be an absolute path. The test of the loop
  decides exactly whether the joined path of an entry lies inside the cleaned temporary
  directory. Every path that \<open>PushScenario\<close> creates or writes lies inside it (or is
  the directory itself, for \<open>MkdirAll\<close>). An entry whose joined path does not lie inside
  makes the call fail and is neither created nor written; the call fails with
  \<open>InvalidArgument\<close> naming the first such entry when the request is well formed and no
  file operation on the entries before it fails.
\<close>

theorem PushScenario_no_traversal:
  assumes "os_MkdirTemp h = Inr tmpDir" and "tmpDir \<noteq> []" and "hd tmpDir = CHR ''/''"
      and "zip_NewReader h (ScenarioZip req) = Inr files"
      and "PushScenario conf h req = (r, fs)"
  shows "list_all (safe_effect (Clean tmpDir)) fs
       \<and> (\<forall>p m. CreateFile p m \<in> set fs \<longrightarrow> inside (Clean tmpDir) p)
       \<and> (\<forall>entry\<in>set files.
            HasPrefix (Join [tmpDir, FName entry]) (Clean tmpDir @ ''/'')
              = inside (Clean tmpDir) (Join [tmpDir, FName entry]))
       \<and> (\<forall>entry\<in>set files. \<not> inside (Clean tmpDir) (Join [tmpDir, FName entry]) \<longrightarrow>
            (\<exists>e. r = Inl e) \<and>
            (\<forall>m. CreateFile (Join [tmpDir, FName entry]) m \<notin> set fs) \<and>
            (\<forall>c. WriteFile (Join [tmpDir, FName entry]) c \<notin> set fs))
       \<and> (\<forall>pre entry post.
            files = pre @ entry # post \<and>
            (\<forall>f\<in>set pre. inside (Clean tmpDir) (Join [tmpDir, FName f])) \<and>
            \<not> inside (Clean tmpDir) (Join [tmpDir, FName entry]) \<and>
            ScenarioZip req \<noteq> [] \<and> Reference req \<noteq> [] \<and>
            OCI_Username conf \<noteq> [] \<and> OCI_Password conf \<noteq> [] \<and>
            (\<forall>fs p. os_MkdirAll h fs p = None) \<and> (\<forall>fs p. os_OpenFile h fs p = None) \<and>
            (\<forall>f\<in>set pre. FOpen f = None \<and> snd (FCopy f) = None) \<longrightarrow>
              r = Inl (Status InvalidArgument ''invalid file path in ZIP: %s''
                         [ArgString (FName entry)]))"
proof -
  note d = assms(2,3)
  obtain x fs0 where x: "extract_entries h tmpDir files [MkdirTemp tmpDir] = (x, fs0)"
    by (cases "extract_entries h tmpDir files [MkdirTemp tmpDir]")
  have s0: "list_all (safe_effect (Clean tmpDir)) fs0"
    using extract_entries_safe [OF d x] by simp
  have fs: "fs = [] \<or> fs = fs0 @ [RemoveAll tmpDir]"
    using assms(1,4,5) x
    by (auto simp: PushScenario_def Let_def split: if_splits option.splits)
  then have safe: "list_all (safe_effect (Clean tmpDir)) fs"
    using s0 by auto
  have cf: "inside (Clean tmpDir) p" if "CreateFile p m \<in> set fs" for p m
    using safe that by (auto simp: list_all_iff)
  have wf: "inside (Clean tmpDir) p" if "WriteFile p c \<in> set fs" for p c
    using safe that by (auto simp: list_all_iff)
  have chk: "HasPrefix (Join [tmpDir, n]) (Clean tmpDir @ ''/'')
               = inside (Clean tmpDir) (Join [tmpDir, n])" for n
    by (rule check_iff_inside [OF d])
  have err: "\<exists>e. r = Inl e"
    if "entry \<in> set files" "\<not> inside (Clean tmpDir) (Join [tmpDir, FName entry])" for entry
  proof -
    have "x \<noteq> None"
    proof
      assume "x = None"
      with x extract_entries_None [of h tmpDir files "[MkdirTemp tmpDir]" fs0] that chk
      show False by blast
    qed
    then show ?thesis
      using assms(1,4,5) x
      by (auto simp: PushScenario_def Let_def split: if_splits option.splits)
  qed
  have first: "r = Inl (Status InvalidArgument ''invalid file path in ZIP: %s''
                         [ArgString (FName entry)])"
    if "files = pre @ entry # post"
       "\<forall>f\<in>set pre. inside (Clean tmpDir) (Join [tmpDir, FName f])"
       "\<not> inside (Clean tmpDir) (Join [tmpDir, FName entry])"
       "ScenarioZip req \<noteq> []" "Reference req \<noteq> []"
       "OCI_Username conf \<noteq> []" "OCI_Password conf \<noteq> []"
       "\<forall>fs p. os_MkdirAll h fs p = None" "\<forall>fs p. os_OpenFile h fs p = None"
       "\<forall>f\<in>set pre. FOpen f = None \<and> snd (FCopy f) = None"
    for pre entry post
  proof -
    have a: "\<forall>f\<in>set pre. HasPrefix (Join [tmpDir, FName f]) (Clean tmpDir @ ''/'')"
      using that(2) by (simp add: chk del: Join.simps)
    have b: "\<not> HasPrefix (Join [tmpDir, FName entry]) (Clean tmpDir @ ''/'')"
      using that(3) by (simp add: chk del: Join.simps)
    have "fst (extract_entries h tmpDir (pre @ entry # post) [MkdirTemp tmpDir]) =
           Some (Status InvalidArgument ''invalid file path in ZIP: %s'' [ArgString (FName entry)])"
      by (rule extract_entries_first_bad [OF that(8) that(9) that(10) a b])
    then have "x = Some (Status InvalidArgument ''invalid file path in ZIP: %s''
                          [ArgString (FName entry)])"
      using x that(1) by simp
    then show ?thesis
      using assms(1,4,5) x that(4-7)
      by (simp add: PushScenario_def Let_def)
  qed
  show ?thesis
    using safe cf wf chk err first by blast
qed

lemma evil_PushScenario:
  "PushScenario example_conf example_host evil_request =
     (Inl (Status InvalidArgument ''invalid file path in ZIP: %s''
             [ArgString ''../../etc/cron.d/job'']),
      [MkdirTemp ''/tmp/scenario-push-1'',
       MkdirAll ''/tmp/scenario-push-1'' 511,
       CreateFile ''/tmp/scenario-push-1/Pulumi.yaml'' 420,
       WriteFile ''/tmp/scenario-push-1/Pulumi.yaml'' [110, 97],
       RemoveAll ''/tmp/scenario-push-1''])"
  by code_simp

lemma example_paths:
  "Clean ''/tmp/scenario-push-1'' = ''/tmp/scenario-push-1''"
  "Join [''/tmp/scenario-push-1'', ''Pulumi.yaml''] = ''/tmp/scenario-push-1/Pulumi.yaml''"
  "Join [''/tmp/scenario-push-1'', ''../../etc/cron.d/job''] = ''/etc/cron.d/job''"
  by code_simp+

lemma example_inside:
  "inside ''/tmp/scenario-push-1'' ''/tmp/scenario-push-1/Pulumi.yaml''"
  "\<not> inside ''/tmp/scenario-push-1'' ''/etc/cron.d/job''"
  by (simp_all add: inside_def)

theorem PushScenario_no_traversal_witness:
  "Join [''/tmp/scenario-push-1'', ''../../etc/cron.d/job''] = ''/etc/cron.d/job''
   \<and> \<not> inside ''/tmp/scenario-push-1'' ''/etc/cron.d/job''
   \<and> fst (PushScenario example_conf example_host evil_request) =
       Inl (Status InvalidArgument ''invalid file path in ZIP: %s''
              [ArgString ''../../etc/cron.d/job''])
   \<and> snd (PushScenario example_conf example_host evil_request) =
       [MkdirTemp ''/tmp/scenario-push-1'',
        MkdirAll ''/tmp/scenario-push-1'' 511,
        CreateFile ''/tmp/scenario-push-1/Pulumi.yaml'' 420,
        WriteFile ''/tmp/scenario-push-1/Pulumi.yaml'' [110, 97],
        RemoveAll ''/tmp/scenario-push-1'']
   \<and> list_all (safe_effect ''/tmp/scenario-push-1'')
        (snd (PushScenario example_conf example_host evil_request))"
proof -
  have mk: "os_MkdirTemp example_host = Inr ''/tmp/scenario-push-1''"
    by (simp add: example_host_def)
  have zr: "zip_NewReader example_host (ScenarioZip evil_request) = Inr evil_entries"
    by (simp add: example_host_def evil_request_def)
  have ps: "PushScenario example_conf example_host evil_request =
      (fst (PushScenario example_conf example_host evil_request),
       snd (PushScenario example_conf example_host evil_request))"
    by simp
  have ne: "''/tmp/scenario-push-1'' \<noteq> []" and hd: "hd ''/tmp/scenario-push-1'' = CHR ''/''"
    by simp_all
  note t = PushScenario_no_traversal [OF mk ne hd zr ps, unfolded example_paths]
  from t have safe: "list_all (safe_effect ''/tmp/scenario-push-1'')
        (snd (PushScenario example_conf example_host evil_request))"
    by blast
  from t have "\<forall>pre entry post.
            evil_entries = pre @ entry # post \<and>
            (\<forall>f\<in>set pre. inside ''/tmp/scenario-push-1'' (Join [''/tmp/scenario-push-1'', FName f])) \<and>
            \<not> inside ''/tmp/scenario-push-1'' (Join [''/tmp/scenario-push-1'', FName entry]) \<and>
            ScenarioZip evil_request \<noteq> [] \<and> Reference evil_request \<noteq> [] \<and>
            OCI_Username example_conf \<noteq> [] \<and> OCI_Password example_conf \<noteq> [] \<and>
            (\<forall>fs p. os_MkdirAll example_host fs p = None) \<and>
            (\<forall>fs p. os_OpenFile example_host fs p = None) \<and>
            (\<forall>f\<in>set pre. FOpen f = None \<and> snd (FCopy f) = None) \<longrightarrow>
              fst (PushScenario example_conf example_host evil_request) =
                Inl (Status InvalidArgument ''invalid file path in ZIP: %s''
                         [ArgString (FName entry)])"
    by blast
  from this [rule_format,
      of "[\<lparr>FName = ''Pulumi.yaml'', FIsDir = False, FMode = 420, FOpen = None,
             FCopy = ([110, 97], None)\<rparr>]"
         "\<lparr>FName = ''../../etc/cron.d/job'', FIsDir = False, FMode = 420, FOpen = None,
           FCopy = ([42], None)\<rparr>"
         "[\<lparr>FName = ''main.go'', FIsDir = False, FMode = 420, FOpen = None,
             FCopy = ([112], None)\<rparr>]"]
  have r: "fst (PushScenario example_conf example_host evil_request) =
       Inl (Status InvalidArgument ''invalid file path in ZIP: %s''
              [ArgString ''../../etc/cron.d/job''])"
    by (simp add: evil_entries_def evil_request_def example_conf_def example_host_def
          example_paths example_inside del: Join.simps)
  show ?thesis
    using r safe by (simp add: example_paths example_inside evil_PushScenario del: Join.simps)
qed

end
